theory Spec2Isabelle
  imports Complex_Main "HOL-Library.Multiset"
begin

section \<open>Data model (config/supabase-schema.sql)\<close>

text \<open>
  The four tables of the schema, one record per row type.  Column names carry a table
  prefix (\<open>p_\<close> profiles, \<open>r_\<close> resources, \<open>v_\<close> reviews, \<open>q_\<close> resource_requests) because
  several tables share the column names \<open>id\<close>, \<open>college\<close>, \<open>created_at\<close>.
  Identifiers are the store's uuid values, written as strings; timestamps are
  milliseconds since the epoch, the unit of \<open>Date.now()\<close> and \<open>getTime()\<close>.
  \<open>average_rating\<close> is \<open>numeric(3,1)\<close>, an exact decimal, modelled as a rational.
\<close>

type_synonym uuid = string
type_synonym timestamp = int

datatype privacy = Public | Private

datatype request_status = Open | Fulfilled

record profile_row =
  p_id :: uuid
  p_name :: string
  p_college :: string
  p_course :: string
  p_branch :: string
  p_semester :: string
  p_profile_image_url :: "string option"
  p_created_at :: timestamp

record resource_row =
  r_id :: uuid
  r_uploader_id :: uuid
  r_title :: string
  r_subject :: string
  r_semester :: string
  r_course :: string
  r_branch :: string
  r_type :: string
  r_year :: string
  r_tags :: "string list"
  r_description :: string
  r_privacy :: privacy
  r_file_url :: "string option"
  r_drive_link :: "string option"
  r_college :: string
  r_average_rating :: rat
  r_total_ratings :: nat
  r_downloads :: nat
  r_is_exam_important :: bool
  r_created_at :: timestamp

record review_row =
  v_id :: uuid
  v_resource_id :: uuid
  v_user_id :: uuid
  v_rating :: int
  v_comment :: string
  v_created_at :: timestamp

record request_row =
  q_id :: uuid
  q_title :: string
  q_subject :: string
  q_semester :: string
  q_description :: string
  q_requester_id :: uuid
  q_status :: request_status
  q_fulfilled_resource_id :: "uuid option"
  q_created_at :: timestamp

record db =
  profiles :: "profile_row list"
  resources :: "resource_row list"
  reviews :: "review_row list"
  resource_requests :: "request_row list"

section \<open>The store client\<close>

text \<open>
  Every call of the store client returns \<open>{ data, error }\<close>; it does not throw.  A call
  site can fail for reasons outside the tables (the store is unreachable); \<open>fails\<close> says
  for each call site of the controllers whether its call returns an error.
\<close>

datatype store_call =
    ReviewLookup | ReviewInsert | ReviewUpdate | ReviewDelete
  | RatingSelect | RatingUpdate
  | ResourceLookup | ResourceUpdate | ResourceDelete | ResourceQuery | ResourceInsert
  | ProfileLookup | ProfileUpdate | ProfileQuery
  | RequestUpdate

type_synonym faults = "store_call \<Rightarrow> bool"

definition no_faults :: faults where
  "no_faults = (\<lambda>_. False)"

text \<open>\<open>.single()\<close> and \<open>.maybeSingle()\<close>: the data is the row when exactly one row matches,
  and null otherwise (with an error, except for \<open>maybeSingle\<close> on no row).\<close>

fun single :: "'a list \<Rightarrow> 'a option" where
  "single [x] = Some x"
| "single _ = None"

text \<open>
  The error responses of the controllers, by status code and message:
  401 \<open>Unauthorized\<close>; 400 \<open>Invalid ... data\<close> and \<open>resourceId is required\<close>;
  404 \<open>... not found\<close>; 403 \<open>You can only edit (delete) your own ...\<close>;
  403 \<open>... lock is 24 hours\<close>; 403 \<open>Private resource access denied\<close>;
  409 \<open>You can submit only one review per resource\<close>; 500 with the message of the store.
  A success (200 or 201) is the \<open>Inr\<close> of the result, with the payload of the response.
  The \<open>catch\<close> blocks of the handlers (500 \<open>Unexpected ... error\<close>) answer exceptions, which
  the store client does not raise, and have no branch here.
\<close>

datatype http_error =
    Unauthorized401
  | Invalid400
  | NotFound404
  | NotOwner403
  | LockExpired403
  | AccessDenied403
  | Conflict409
  | Store500

text \<open>\<open>!req.user?.id\<close>: the user is absent, or the id is the empty string.\<close>

fun truthy :: "string option \<Rightarrow> bool" where
  "truthy None = False"
| "truthy (Some s) = (s \<noteq> [])"

section \<open>utils/timeHelpers.ts\<close>

definition LOCK_WINDOW_MS :: int where
  "LOCK_WINDOW_MS = 24 * 60 * 60 * 1000"

text \<open>\<open>Date.now()\<close> is the parameter \<open>now\<close>.\<close>

definition isWithin24Hours :: "timestamp \<Rightarrow> timestamp \<Rightarrow> bool" where
  "isWithin24Hours now createdAt = (now - createdAt \<le> LOCK_WINDOW_MS)"

section \<open>JavaScript numbers in \<open>refreshResourceRating\<close>\<close>

text \<open>
  \<open>sum / totalRatings\<close> is a division of IEEE 754 binary64 numbers: the exact quotient
  rounded to 53 significant bits, ties to even.  The sum of integer ratings and the count are
  exact in binary64 (below \<open>2^53\<close>), and the quotient of two such numbers is a normal number,
  so only the rounding of the significand is modelled.  \<open>round_half_even a b\<close> is \<open>a / b\<close>
  rounded to the nearest integer, ties to even.
\<close>

definition round_half_even :: "int \<Rightarrow> int \<Rightarrow> int" where
  "round_half_even a b =
     (let q = a div b; r = a mod b
      in if 2 * r < b then q
         else if b < 2 * r then q + 1
         else if even q then q else q + 1)"

text \<open>The number of binary digits of a positive integer.\<close>

function bit_length :: "int \<Rightarrow> nat" where
  "bit_length k = (if k \<le> 0 then 0 else Suc (bit_length (k div 2)))"
  by pat_completeness auto
termination
  by (relation "measure nat") auto

text \<open>\<open>binary_exponent s n\<close> is the integer \<open>e\<close> with \<open>2^e \<le> s / n < 2^(e+1)\<close>, for positive
  \<open>s\<close> and \<open>n\<close>.\<close>

definition binary_exponent :: "int \<Rightarrow> int \<Rightarrow> int" where
  "binary_exponent s n =
     (let d = int (bit_length s) - int (bit_length n)
      in if (if 0 \<le> d then n * 2 ^ nat d \<le> s else n \<le> s * 2 ^ nat (- d)) then d else d - 1)"

text \<open>The binary64 quotient of two positive integers.\<close>

definition double_div :: "int \<Rightarrow> int \<Rightarrow> rat" where
  "double_div s n =
     (let e = binary_exponent s n
      in if e \<le> 52
         then of_int (round_half_even (s * 2 ^ nat (52 - e)) n) / 2 ^ nat (52 - e)
         else of_int (round_half_even s (n * 2 ^ nat (e - 52))) * 2 ^ nat (e - 52))"

text \<open>The division of a sum of either sign by a positive count (binary64 rounding is
  symmetric, and \<open>0 / n\<close> is 0).\<close>

definition js_div :: "int \<Rightarrow> int \<Rightarrow> rat" where
  "js_div s n = (if s = 0 then 0 else if s < 0 then - double_div (- s) n else double_div s n)"

text \<open>
  \<open>x.toFixed(1)\<close>: the integer \<open>n\<close> for which \<open>n / 10 - x\<close> is as close to zero as possible,
  the larger \<open>n\<close> when there are two, computed on the exact value of the binary64 number
  \<open>x\<close>; a negative \<open>x\<close> is formatted as \<open>-\<close> followed by the digits of \<open>-x\<close>.  The result is
  given in tenths.  \<open>Number(...)\<close> of the digits, written to the \<open>numeric(3,1)\<close> column, is
  that many tenths.
\<close>

definition toFixed1 :: "rat \<Rightarrow> int" where
  "toFixed1 x = (if x < 0 then - \<lfloor>(- x) * 10 + 1 / 2\<rfloor> else \<lfloor>x * 10 + 1 / 2\<rfloor>)"

definition averageRating :: "int list \<Rightarrow> rat" where
  "averageRating ratings =
     (if length ratings > 0
      then of_int (toFixed1 (js_div (sum_list ratings) (int (length ratings)))) / 10
      else 0)"

section \<open>controllers/reviewController.ts\<close>

record review_input =
  i_resourceId :: uuid
  i_rating :: int
  i_comment :: "string option"

record review_update_input =
  u_rating :: "int option"
  u_comment :: "string option"

text \<open>\<open>reviewSchema\<close> and \<open>reviewUpdateSchema\<close>; a rating is an integer by its type here, and
  \<open>resourceId\<close> a uuid.\<close>

definition reviewSchema_ok :: "review_input \<Rightarrow> bool" where
  "reviewSchema_ok b =
     (1 \<le> i_rating b \<and> i_rating b \<le> 5 \<and>
      (case i_comment b of None \<Rightarrow> True | Some c \<Rightarrow> length c \<le> 1000))"

definition reviewUpdateSchema_ok :: "review_update_input \<Rightarrow> bool" where
  "reviewUpdateSchema_ok b =
     ((case u_rating b of None \<Rightarrow> True | Some r \<Rightarrow> 1 \<le> r \<and> r \<le> 5) \<and>
      (case u_comment b of None \<Rightarrow> True | Some c \<Rightarrow> length c \<le> 1000))"

text \<open>\<open>.from("reviews").select(...).eq("id", id).single()\<close>, and the same on
  \<open>resources\<close>: the controllers treat an error and missing data alike.\<close>

definition find_review :: "faults \<Rightarrow> uuid \<Rightarrow> db \<Rightarrow> review_row option" where
  "find_review fails rid d =
     (if fails ReviewLookup then None else single (filter (\<lambda>v. v_id v = rid) (reviews d)))"

definition find_resource :: "faults \<Rightarrow> uuid \<Rightarrow> db \<Rightarrow> resource_row option" where
  "find_resource fails rid d =
     (if fails ResourceLookup then None else single (filter (\<lambda>r. r_id r = rid) (resources d)))"

text \<open>The ratings of the reviews of one resource, in table order.\<close>

definition ratings_of :: "uuid \<Rightarrow> db \<Rightarrow> int list" where
  "ratings_of resourceId d =
     map v_rating (filter (\<lambda>v. v_resource_id v = resourceId) (reviews d))"

text \<open>
  \<open>refreshResourceRating\<close> drops the \<open>error\<close> of both of its calls: a failed select leaves
  \<open>reviews\<close> null, so the count and the average are 0, and a failed update writes nothing.
\<close>

definition refreshResourceRating :: "faults \<Rightarrow> uuid \<Rightarrow> db \<Rightarrow> db" where
  "refreshResourceRating fails resourceId d =
     (let reviews = (if fails RatingSelect then None else Some (ratings_of resourceId d));
          totalRatings = (case reviews of None \<Rightarrow> 0 | Some rs \<Rightarrow> length rs);
          average = (case reviews of None \<Rightarrow> 0 | Some rs \<Rightarrow> averageRating rs)
      in if fails RatingUpdate then d
         else d\<lparr>resources :=
                  map (\<lambda>r. if r_id r = resourceId
                            then r\<lparr>r_average_rating := average, r_total_ratings := totalRatings\<rparr>
                            else r)
                      (resources d)\<rparr>)"

text \<open>The constraints of the \<open>reviews\<close> table on an insert: primary key, the two foreign
  keys, the check on the rating, and \<open>unique (resource_id, user_id)\<close>.\<close>

definition reviews_insert_ok :: "review_row \<Rightarrow> db \<Rightarrow> bool" where
  "reviews_insert_ok v d =
     (v_id v \<notin> set (map v_id (reviews d)) \<and>
      v_resource_id v \<in> set (map r_id (resources d)) \<and>
      v_user_id v \<in> set (map p_id (profiles d)) \<and>
      1 \<le> v_rating v \<and> v_rating v \<le> 5 \<and>
      \<not> list_ex (\<lambda>w. v_resource_id w = v_resource_id v \<and> v_user_id w = v_user_id v) (reviews d))"

text \<open>\<open>newId\<close> is the value of \<open>gen_random_uuid()\<close> and \<open>now\<close> the store's \<open>now()\<close> for the new
  row.\<close>

definition createReview ::
  "faults \<Rightarrow> timestamp \<Rightarrow> uuid \<Rightarrow> string option \<Rightarrow> review_input \<Rightarrow> db
     \<Rightarrow> (http_error + review_row) \<times> db" where
  "createReview fails now newId user body d =
     (case user of
        None \<Rightarrow> (Inl Unauthorized401, d)
      | Some uid \<Rightarrow>
          if uid = [] then (Inl Unauthorized401, d)
          else if \<not> reviewSchema_ok body then (Inl Invalid400, d)
          else
            let existing =
                  (if fails ReviewLookup then None
                   else single (filter (\<lambda>v. v_resource_id v = i_resourceId body \<and> v_user_id v = uid)
                                  (reviews d)))
            in if existing \<noteq> None then (Inl Conflict409, d)
               else
                 let row = \<lparr>v_id = newId, v_resource_id = i_resourceId body, v_user_id = uid,
                            v_rating = i_rating body,
                            v_comment = (case i_comment body of None \<Rightarrow> [] | Some c \<Rightarrow> c),
                            v_created_at = now\<rparr>
                 in if fails ReviewInsert \<or> \<not> reviews_insert_ok row d then (Inl Store500, d)
                    else (Inr row,
                          refreshResourceRating fails (i_resourceId body)
                            (d\<lparr>reviews := reviews d @ [row]\<rparr>)))"

definition apply_review_update :: "review_update_input \<Rightarrow> review_row \<Rightarrow> review_row" where
  "apply_review_update b v =
     (let v1 = (case u_rating b of None \<Rightarrow> v | Some r \<Rightarrow> v\<lparr>v_rating := r\<rparr>)
      in case u_comment b of None \<Rightarrow> v1 | Some c \<Rightarrow> v1\<lparr>v_comment := c\<rparr>)"

text \<open>
  The object given to \<open>update\<close> has a key only for a field of the body that is not undefined.
  The store sets no column for an object without keys, changes no row and returns none, so
  that \<open>.single()\<close> has an error and the handler answers 500.
\<close>

definition review_update_empty :: "review_update_input \<Rightarrow> bool" where
  "review_update_empty b = (u_rating b = None \<and> u_comment b = None)"

definition updateReview ::
  "faults \<Rightarrow> timestamp \<Rightarrow> string option \<Rightarrow> uuid \<Rightarrow> review_update_input \<Rightarrow> db
     \<Rightarrow> (http_error + review_row) \<times> db" where
  "updateReview fails now user rid body d =
     (case user of
        None \<Rightarrow> (Inl Unauthorized401, d)
      | Some uid \<Rightarrow>
          if uid = [] then (Inl Unauthorized401, d)
          else if \<not> reviewUpdateSchema_ok body then (Inl Invalid400, d)
          else
            case find_review fails rid d of
              None \<Rightarrow> (Inl NotFound404, d)
            | Some existing \<Rightarrow>
                if v_user_id existing \<noteq> uid then (Inl NotOwner403, d)
                else if \<not> isWithin24Hours now (v_created_at existing) then (Inl LockExpired403, d)
                else if fails ReviewUpdate \<or> review_update_empty body then (Inl Store500, d)
                else
                  let d' = d\<lparr>reviews :=
                                map (\<lambda>v. if v_id v = rid then apply_review_update body v else v)
                                    (reviews d)\<rparr>
                  in case single (filter (\<lambda>v. v_id v = rid) (reviews d')) of
                       None \<Rightarrow> (Inl Store500, d')
                     | Some data \<Rightarrow>
                         (Inr data, refreshResourceRating fails (v_resource_id existing) d'))"

definition deleteReview ::
  "faults \<Rightarrow> timestamp \<Rightarrow> string option \<Rightarrow> uuid \<Rightarrow> db \<Rightarrow> (http_error + unit) \<times> db" where
  "deleteReview fails now user rid d =
     (case user of
        None \<Rightarrow> (Inl Unauthorized401, d)
      | Some uid \<Rightarrow>
          if uid = [] then (Inl Unauthorized401, d)
          else
            case find_review fails rid d of
              None \<Rightarrow> (Inl NotFound404, d)
            | Some existing \<Rightarrow>
                if v_user_id existing \<noteq> uid then (Inl NotOwner403, d)
                else if \<not> isWithin24Hours now (v_created_at existing) then (Inl LockExpired403, d)
                else if fails ReviewDelete then (Inl Store500, d)
                else (Inr (),
                      refreshResourceRating fails (v_resource_id existing)
                        (d\<lparr>reviews := filter (\<lambda>v. v_id v \<noteq> rid) (reviews d)\<rparr>)))"

section \<open>controllers/resourceController.ts\<close>

subsection \<open>Request bodies\<close>

text \<open>
  \<open>resourceInputSchema\<close> and its \<open>.partial()\<close>.  In the partial schema every field may be
  absent (\<open>None\<close>); \<open>fileUrl\<close> and \<open>driveLink\<close> may also be null (\<open>Some None\<close>).  The format
  check of \<open>z.string().url()\<close> belongs to the validation library and is the parameter
  \<open>isUrl\<close>.
\<close>

record resource_input =
  n_title :: string
  n_subject :: string
  n_semester :: string
  n_course :: string
  n_branch :: "string option"
  n_type :: string
  n_year :: string
  n_tags :: "string list option"
  n_description :: "string option"
  n_privacy :: privacy
  n_fileUrl :: "string option"
  n_driveLink :: "string option"
  n_isExamImportant :: "bool option"

record resource_update =
  e_title :: "string option"
  e_subject :: "string option"
  e_semester :: "string option"
  e_course :: "string option"
  e_branch :: "string option"
  e_type :: "string option"
  e_year :: "string option"
  e_tags :: "string list option"
  e_description :: "string option"
  e_privacy :: "privacy option"
  e_fileUrl :: "string option option"
  e_driveLink :: "string option option"
  e_isExamImportant :: "bool option"

definition min1 :: "string option \<Rightarrow> bool" where
  "min1 x = (case x of None \<Rightarrow> True | Some s \<Rightarrow> 1 \<le> length s)"

definition resourceInputSchema_ok :: "(string \<Rightarrow> bool) \<Rightarrow> resource_input \<Rightarrow> bool" where
  "resourceInputSchema_ok isUrl b =
     (1 \<le> length (n_title b) \<and> 1 \<le> length (n_subject b) \<and> 1 \<le> length (n_semester b) \<and>
      1 \<le> length (n_course b) \<and> 1 \<le> length (n_type b) \<and> 1 \<le> length (n_year b) \<and>
      min1 (n_fileUrl b) \<and>
      (case n_driveLink b of None \<Rightarrow> True | Some u \<Rightarrow> isUrl u))"

definition resourceUpdateSchema_ok :: "(string \<Rightarrow> bool) \<Rightarrow> resource_update \<Rightarrow> bool" where
  "resourceUpdateSchema_ok isUrl b =
     (min1 (e_title b) \<and> min1 (e_subject b) \<and> min1 (e_semester b) \<and> min1 (e_course b) \<and>
      min1 (e_type b) \<and> min1 (e_year b) \<and>
      (case e_fileUrl b of Some (Some u) \<Rightarrow> 1 \<le> length u | _ \<Rightarrow> True) \<and>
      (case e_driveLink b of Some (Some u) \<Rightarrow> isUrl u | _ \<Rightarrow> True))"

subsection \<open>createResource\<close>

text \<open>The new row takes \<open>college\<close> from the uploader's profile; \<open>average_rating\<close>,
  \<open>total_ratings\<close> and \<open>downloads\<close> are not in the insert and take the column default 0.
  The insert is subject to the primary key and to the foreign key on \<open>uploader_id\<close>.\<close>

definition createResource ::
  "faults \<Rightarrow> (string \<Rightarrow> bool) \<Rightarrow> timestamp \<Rightarrow> uuid \<Rightarrow> string option \<Rightarrow> resource_input \<Rightarrow> db
     \<Rightarrow> (http_error + resource_row \<times> nat) \<times> db" where
  "createResource fails isUrl now newId user body d =
     (case user of
        None \<Rightarrow> (Inl Unauthorized401, d)
      | Some uid \<Rightarrow>
          if uid = [] then (Inl Unauthorized401, d)
          else if \<not> resourceInputSchema_ok isUrl body then (Inl Invalid400, d)
          else
            case (if fails ProfileLookup then None
                  else single (filter (\<lambda>p. p_id p = uid) (profiles d))) of
              None \<Rightarrow> (Inl NotFound404, d)
            | Some profile \<Rightarrow>
                let row = \<lparr>r_id = newId, r_uploader_id = uid, r_title = n_title body,
                           r_subject = n_subject body, r_semester = n_semester body,
                           r_course = n_course body,
                           r_branch = (case n_branch body of None \<Rightarrow> ''General'' | Some b \<Rightarrow> b),
                           r_type = n_type body, r_year = n_year body,
                           r_tags = (case n_tags body of None \<Rightarrow> [] | Some t \<Rightarrow> t),
                           r_description = (case n_description body of None \<Rightarrow> [] | Some t \<Rightarrow> t),
                           r_privacy = n_privacy body, r_file_url = n_fileUrl body,
                           r_drive_link = n_driveLink body, r_college = p_college profile,
                           r_average_rating = 0, r_total_ratings = 0, r_downloads = 0,
                           r_is_exam_important =
                             (case n_isExamImportant body of None \<Rightarrow> False | Some b \<Rightarrow> b),
                           r_created_at = now\<rparr>
                in if fails ResourceInsert \<or> newId \<in> set (map r_id (resources d))
                      \<or> uid \<notin> set (map p_id (profiles d))
                   then (Inl Store500, d)
                   else (Inr (row, if n_privacy body = Public then 10 else 5),
                         d\<lparr>resources := resources d @ [row]\<rparr>))"

subsection \<open>getResources and getResourceById\<close>

text \<open>The callback of \<open>filter\<close> in \<open>getResources\<close>; \<open>userCollege\<close> is
  \<open>profile?.college ?? null\<close>.\<close>

definition visible :: "string option \<Rightarrow> string option \<Rightarrow> resource_row \<Rightarrow> bool" where
  "visible userId userCollege row =
     (if r_privacy row = Public then True
      else if \<not> truthy userId \<or> \<not> truthy userCollege then False
      else (Some (r_uploader_id row) = userId \<or> Some (r_college row) = userCollege))"

definition lookup_college :: "faults \<Rightarrow> uuid \<Rightarrow> db \<Rightarrow> string option" where
  "lookup_college fails uid d =
     (if fails ProfileLookup then None
      else map_option p_college (single (filter (\<lambda>p. p_id p = uid) (profiles d))))"

text \<open>\<open>userCollege\<close> in \<open>getResources\<close>: null without a user id, else the college of the
  profile lookup.\<close>

definition viewer_college :: "faults \<Rightarrow> string option \<Rightarrow> db \<Rightarrow> string option" where
  "viewer_college fails user d =
     (case user of
        None \<Rightarrow> None
      | Some uid \<Rightarrow> if uid = [] then None else lookup_college fails uid d)"

text \<open>
  The query filters (\<open>eq\<close> on course, branch, semester, type, year, privacy, and the
  \<open>ilike\<close> search) are the predicate \<open>matches\<close>.  The store answers the query with the
  matching rows ordered by \<open>created_at\<close>, descending; it fixes no order among rows with the
  same \<open>created_at\<close>.  \<open>query_rows matches d rows\<close> says that \<open>rows\<close> is such an answer, and
  \<open>rows\<close> is the \<open>data\<close> that \<open>getResources\<close> filters.
\<close>

definition query_rows :: "(resource_row \<Rightarrow> bool) \<Rightarrow> db \<Rightarrow> resource_row list \<Rightarrow> bool" where
  "query_rows matches d rows =
     (mset rows = mset (filter matches (resources d)) \<and>
      sorted_wrt (\<lambda>a b. r_created_at b \<le> r_created_at a) rows)"

definition getResources ::
  "faults \<Rightarrow> string option \<Rightarrow> resource_row list \<Rightarrow> db \<Rightarrow> http_error + resource_row list" where
  "getResources fails user rows d =
     (let userCollege = viewer_college fails user d
      in if fails ResourceQuery then Inl Store500
         else Inr (filter (visible user userCollege) rows))"

definition getResourceById ::
  "faults \<Rightarrow> string option \<Rightarrow> uuid \<Rightarrow> db \<Rightarrow> http_error + resource_row" where
  "getResourceById fails user rid d =
     (case find_resource fails rid d of
        None \<Rightarrow> Inl NotFound404
      | Some resource \<Rightarrow>
          if r_privacy resource = Private then
            (case user of
               None \<Rightarrow> Inl AccessDenied403
             | Some uid \<Rightarrow>
                 if uid = [] then Inl AccessDenied403
                 else
                   let college = lookup_college fails uid d;
                       allowed = (r_uploader_id resource = uid \<or> college = Some (r_college resource))
                   in if \<not> allowed then Inl AccessDenied403 else Inr resource)
          else Inr resource)"

subsection \<open>updateResource and deleteResource\<close>

text \<open>
  \<open>parsed.data\<close> of \<open>resourceUpdateSchema.safeParse\<close>.  \<open>resourceUpdateSchema\<close> is
  \<open>resourceInputSchema.partial()\<close>, and four fields of \<open>resourceInputSchema\<close> have a default:
  \<open>branch\<close>, \<open>tags\<close>, \<open>description\<close> and \<open>isExamImportant\<close>.  Whether an absent field with a
  default is absent in the parsed data, or has its default there, depends on the version of
  the validation library, which the repository does not fix: that is the parameter
  \<open>keepsDefaults\<close>.
\<close>

definition resourceUpdateSchema_parse :: "bool \<Rightarrow> resource_update \<Rightarrow> resource_update" where
  "resourceUpdateSchema_parse keepsDefaults b =
     (if keepsDefaults then
        b\<lparr>e_branch := (case e_branch b of None \<Rightarrow> Some ''General'' | Some x \<Rightarrow> Some x),
          e_tags := (case e_tags b of None \<Rightarrow> Some [] | Some x \<Rightarrow> Some x),
          e_description := (case e_description b of None \<Rightarrow> Some [] | Some x \<Rightarrow> Some x),
          e_isExamImportant := (case e_isExamImportant b of None \<Rightarrow> Some False | Some x \<Rightarrow> Some x)\<rparr>
      else b)"

text \<open>The object given to \<open>update\<close> has no key.\<close>

definition resource_update_empty :: "resource_update \<Rightarrow> bool" where
  "resource_update_empty p =
     (e_title p = None \<and> e_subject p = None \<and> e_semester p = None \<and> e_course p = None \<and>
      e_branch p = None \<and> e_type p = None \<and> e_year p = None \<and> e_tags p = None \<and>
      e_description p = None \<and> e_privacy p = None \<and> e_fileUrl p = None \<and>
      e_driveLink p = None \<and> e_isExamImportant p = None)"

definition apply_resource_update :: "resource_update \<Rightarrow> resource_row \<Rightarrow> resource_row" where
  "apply_resource_update p r =
     r\<lparr>r_title := (case e_title p of None \<Rightarrow> r_title r | Some x \<Rightarrow> x),
       r_subject := (case e_subject p of None \<Rightarrow> r_subject r | Some x \<Rightarrow> x),
       r_semester := (case e_semester p of None \<Rightarrow> r_semester r | Some x \<Rightarrow> x),
       r_course := (case e_course p of None \<Rightarrow> r_course r | Some x \<Rightarrow> x),
       r_branch := (case e_branch p of None \<Rightarrow> r_branch r | Some x \<Rightarrow> x),
       r_type := (case e_type p of None \<Rightarrow> r_type r | Some x \<Rightarrow> x),
       r_year := (case e_year p of None \<Rightarrow> r_year r | Some x \<Rightarrow> x),
       r_tags := (case e_tags p of None \<Rightarrow> r_tags r | Some x \<Rightarrow> x),
       r_description := (case e_description p of None \<Rightarrow> r_description r | Some x \<Rightarrow> x),
       r_privacy := (case e_privacy p of None \<Rightarrow> r_privacy r | Some x \<Rightarrow> x),
       r_file_url := (case e_fileUrl p of None \<Rightarrow> r_file_url r | Some x \<Rightarrow> x),
       r_drive_link := (case e_driveLink p of None \<Rightarrow> r_drive_link r | Some x \<Rightarrow> x),
       r_is_exam_important :=
         (case e_isExamImportant p of None \<Rightarrow> r_is_exam_important r | Some x \<Rightarrow> x)\<rparr>"

definition updateResource ::
  "faults \<Rightarrow> (string \<Rightarrow> bool) \<Rightarrow> bool \<Rightarrow> timestamp \<Rightarrow> string option \<Rightarrow> uuid \<Rightarrow> resource_update
     \<Rightarrow> db \<Rightarrow> (http_error + resource_row) \<times> db" where
  "updateResource fails isUrl keepsDefaults now user rid body d =
     (case user of
        None \<Rightarrow> (Inl Unauthorized401, d)
      | Some uid \<Rightarrow>
          if uid = [] then (Inl Unauthorized401, d)
          else if \<not> resourceUpdateSchema_ok isUrl body then (Inl Invalid400, d)
          else
            case find_resource fails rid d of
              None \<Rightarrow> (Inl NotFound404, d)
            | Some existing \<Rightarrow>
                if r_uploader_id existing \<noteq> uid then (Inl NotOwner403, d)
                else if \<not> isWithin24Hours now (r_created_at existing) then (Inl LockExpired403, d)
                else
                  let p = resourceUpdateSchema_parse keepsDefaults body
                  in if fails ResourceUpdate \<or> resource_update_empty p then (Inl Store500, d)
                     else
                       let d' = d\<lparr>resources :=
                                     map (\<lambda>r. if r_id r = rid then apply_resource_update p r else r)
                                         (resources d)\<rparr>
                       in case single (filter (\<lambda>r. r_id r = rid) (resources d')) of
                            None \<Rightarrow> (Inl Store500, d')
                          | Some updated \<Rightarrow> (Inr updated, d'))"

text \<open>Deleting a resource row cascades to its reviews (\<open>on delete cascade\<close>) and clears
  \<open>fulfilled_resource_id\<close> of the requests that point to it (\<open>on delete set null\<close>).\<close>

definition delete_resource_rows :: "uuid \<Rightarrow> db \<Rightarrow> db" where
  "delete_resource_rows rid d =
     d\<lparr>resources := filter (\<lambda>r. r_id r \<noteq> rid) (resources d),
       reviews := filter (\<lambda>v. v_resource_id v \<noteq> rid) (reviews d),
       resource_requests :=
         map (\<lambda>q. if q_fulfilled_resource_id q = Some rid
                   then q\<lparr>q_fulfilled_resource_id := None\<rparr> else q)
             (resource_requests d)\<rparr>"

definition deleteResource ::
  "faults \<Rightarrow> timestamp \<Rightarrow> string option \<Rightarrow> uuid \<Rightarrow> db \<Rightarrow> (http_error + unit) \<times> db" where
  "deleteResource fails now user rid d =
     (case user of
        None \<Rightarrow> (Inl Unauthorized401, d)
      | Some uid \<Rightarrow>
          if uid = [] then (Inl Unauthorized401, d)
          else
            case find_resource fails rid d of
              None \<Rightarrow> (Inl NotFound404, d)
            | Some existing \<Rightarrow>
                if r_uploader_id existing \<noteq> uid then (Inl NotOwner403, d)
                else if \<not> isWithin24Hours now (r_created_at existing) then (Inl LockExpired403, d)
                else if fails ResourceDelete then (Inl Store500, d)
                else (Inr (), delete_resource_rows rid d))"

subsection \<open>fulfillRequest\<close>

text \<open>
  One update of \<open>resource_requests\<close>, filtered by the id of the route, with no lookup
  before it and no \<open>select\<close> after it.  An update that matches no row is not an error.  For a
  row that matches, the foreign key of \<open>fulfilled_resource_id\<close> makes the statement fail when
  no resource has that id.
\<close>

definition fulfillRequest ::
  "faults \<Rightarrow> string option \<Rightarrow> string option \<Rightarrow> uuid \<Rightarrow> db \<Rightarrow> (http_error + unit) \<times> db" where
  "fulfillRequest fails user resourceId qid d =
     (if \<not> truthy user then (Inl Unauthorized401, d)
      else
        case resourceId of
          None \<Rightarrow> (Inl Invalid400, d)
        | Some res \<Rightarrow>
            if res = [] then (Inl Invalid400, d)
            else if fails RequestUpdate
                    \<or> (list_ex (\<lambda>q. q_id q = qid) (resource_requests d)
                        \<and> res \<notin> set (map r_id (resources d)))
            then (Inl Store500, d)
            else (Inr (),
                  d\<lparr>resource_requests :=
                      map (\<lambda>q. if q_id q = qid
                                then q\<lparr>q_status := Fulfilled, q_fulfilled_resource_id := Some res\<rparr>
                                else q)
                          (resource_requests d)\<rparr>))"

section \<open>controllers/authController.ts: updateProfile\<close>

record profile_update =
  a_name :: "string option"
  a_college :: "string option"
  a_course :: "string option"
  a_branch :: "string option"
  a_semester :: "string option"
  a_profileImageUrl :: "string option option"

definition min2 :: "string option \<Rightarrow> bool" where
  "min2 x = (case x of None \<Rightarrow> True | Some s \<Rightarrow> 2 \<le> length s)"

definition updateProfileSchema_ok :: "(string \<Rightarrow> bool) \<Rightarrow> profile_update \<Rightarrow> bool" where
  "updateProfileSchema_ok isUrl b =
     (min2 (a_name b) \<and> min2 (a_college b) \<and> min1 (a_course b) \<and> min1 (a_branch b) \<and>
      min1 (a_semester b) \<and>
      (case a_profileImageUrl b of Some (Some u) \<Rightarrow> isUrl u | _ \<Rightarrow> True))"

definition apply_profile_update :: "profile_update \<Rightarrow> profile_row \<Rightarrow> profile_row" where
  "apply_profile_update b p =
     p\<lparr>p_name := (case a_name b of None \<Rightarrow> p_name p | Some x \<Rightarrow> x),
       p_college := (case a_college b of None \<Rightarrow> p_college p | Some x \<Rightarrow> x),
       p_course := (case a_course b of None \<Rightarrow> p_course p | Some x \<Rightarrow> x),
       p_branch := (case a_branch b of None \<Rightarrow> p_branch p | Some x \<Rightarrow> x),
       p_semester := (case a_semester b of None \<Rightarrow> p_semester p | Some x \<Rightarrow> x),
       p_profile_image_url :=
         (case a_profileImageUrl b of None \<Rightarrow> p_profile_image_url p | Some x \<Rightarrow> x)\<rparr>"

text \<open>The object given to \<open>update\<close> has no key; as in \<open>updateReview\<close>, the store then
  returns no row and the handler answers 500.\<close>

definition profile_update_empty :: "profile_update \<Rightarrow> bool" where
  "profile_update_empty b =
     (a_name b = None \<and> a_college b = None \<and> a_course b = None \<and> a_branch b = None \<and>
      a_semester b = None \<and> a_profileImageUrl b = None)"

definition updateProfile ::
  "faults \<Rightarrow> (string \<Rightarrow> bool) \<Rightarrow> string option \<Rightarrow> profile_update \<Rightarrow> db
     \<Rightarrow> (http_error + profile_row) \<times> db" where
  "updateProfile fails isUrl user body d =
     (case user of
        None \<Rightarrow> (Inl Unauthorized401, d)
      | Some uid \<Rightarrow>
          if uid = [] then (Inl Unauthorized401, d)
          else if \<not> updateProfileSchema_ok isUrl body then (Inl Invalid400, d)
          else if fails ProfileUpdate \<or> profile_update_empty body then (Inl Store500, d)
          else
            let d' = d\<lparr>profiles :=
                          map (\<lambda>p. if p_id p = uid then apply_profile_update body p else p)
                              (profiles d)\<rparr>
            in case single (filter (\<lambda>p. p_id p = uid) (profiles d')) of
                 None \<Rightarrow> (Inl Store500, d')
               | Some updated \<Rightarrow> (Inr updated, d'))"

section \<open>middleware/authMiddleware.ts\<close>

text \<open>
  Of a request the middleware reads the \<open>Authorization\<close> header.  \<open>getUser\<close> is
  \<open>supabaseAuthClient.auth.getUser\<close>: the id of the user of a token, or none for a token that
  is invalid or has expired.  The middleware answers 401, or sets \<open>req.user\<close> and goes on to
  the handler; \<open>Inr uid\<close> is the id in \<open>req.user\<close> then.
\<close>

record http_request =
  authorization :: "string option"

definition authMiddleware :: "(string \<Rightarrow> uuid option) \<Rightarrow> http_request \<Rightarrow> http_error + uuid" where
  "authMiddleware getUser req =
     (case authorization req of
        None \<Rightarrow> Inl Unauthorized401
      | Some authHeader \<Rightarrow>
          if take 7 authHeader \<noteq> ''Bearer '' then Inl Unauthorized401
          else
            case getUser (drop 7 authHeader) of
              None \<Rightarrow> Inl Unauthorized401
            | Some uid \<Rightarrow> Inr uid)"

section \<open>routes/resourceRoutes.ts\<close>

text \<open>
  \<open>router.get("/", getResources)\<close> and \<open>router.get("/:id", getResourceById)\<close>: no middleware
  runs before the handler, and nothing else assigns \<open>req.user\<close>, so the handler reads
  \<open>req.user\<close> as undefined whatever the request carries.
  \<open>router.put("/:id", authMiddleware, updateResource)\<close>: the handler runs after the
  middleware, with the user that the middleware has set.
\<close>

definition GET_resources ::
  "faults \<Rightarrow> (string \<Rightarrow> uuid option) \<Rightarrow> http_request \<Rightarrow> resource_row list \<Rightarrow> db
     \<Rightarrow> http_error + resource_row list" where
  "GET_resources fails getUser req rows d = getResources fails None rows d"

definition GET_resource ::
  "faults \<Rightarrow> (string \<Rightarrow> uuid option) \<Rightarrow> http_request \<Rightarrow> uuid \<Rightarrow> db \<Rightarrow> http_error + resource_row" where
  "GET_resource fails getUser req rid d = getResourceById fails None rid d"

definition PUT_resource ::
  "faults \<Rightarrow> (string \<Rightarrow> uuid option) \<Rightarrow> (string \<Rightarrow> bool) \<Rightarrow> bool \<Rightarrow> timestamp \<Rightarrow> http_request \<Rightarrow> uuid
     \<Rightarrow> resource_update \<Rightarrow> db \<Rightarrow> (http_error + resource_row) \<times> db" where
  "PUT_resource fails getUser isUrl keepsDefaults now req rid body d =
     (case authMiddleware getUser req of
        Inl e \<Rightarrow> (Inl e, d)
      | Inr uid \<Rightarrow> updateResource fails isUrl keepsDefaults now (Some uid) rid body d)"

section \<open>controllers/leaderboardController.ts\<close>

record leaderboard_entry =
  l_id :: uuid
  l_name :: string
  l_college :: string
  l_branch :: string
  l_points :: nat

text \<open>\<open>pointsByUser.get(id) ?? 0\<close>, and the loop over the resources that fills the \<open>Map\<close>
  \<open>pointsByUser\<close>.\<close>

definition get_or_zero :: "(uuid \<rightharpoonup> nat) \<Rightarrow> uuid \<Rightarrow> nat" where
  "get_or_zero m k = (case m k of None \<Rightarrow> 0 | Some p \<Rightarrow> p)"

definition add_points :: "(uuid \<rightharpoonup> nat) \<Rightarrow> resource_row \<Rightarrow> (uuid \<rightharpoonup> nat)" where
  "add_points m item =
     (let points = (if r_privacy item = Public then 10 else 5)
      in m(r_uploader_id item \<mapsto> get_or_zero m (r_uploader_id item) + points))"

definition pointsByUser :: "resource_row list \<Rightarrow> (uuid \<rightharpoonup> nat)" where
  "pointsByUser rs = foldl add_points Map.empty rs"

definition entry_of :: "(uuid \<rightharpoonup> nat) \<Rightarrow> profile_row \<Rightarrow> leaderboard_entry" where
  "entry_of m profile =
     \<lparr>l_id = p_id profile, l_name = p_name profile, l_college = p_college profile,
      l_branch = p_branch profile,
      l_points = get_or_zero m (p_id profile)\<rparr>"

text \<open>\<open>Array.prototype.sort\<close> is stable; with the comparator \<open>b.points - a.points\<close> it is
  the stable sort by descending points, here the insertion sort on the negated points.\<close>

definition computeLeaderboard :: "profile_row list \<Rightarrow> resource_row list \<Rightarrow> leaderboard_entry list" where
  "computeLeaderboard ps rs =
     sort_key (\<lambda>e. - int (l_points e)) (map (entry_of (pointsByUser rs)) ps)"

definition getLeaderboard :: "faults \<Rightarrow> db \<Rightarrow> http_error + leaderboard_entry list" where
  "getLeaderboard fails d =
     (if fails ProfileQuery then Inl Store500
      else if fails ResourceQuery then Inl Store500
      else Inr (computeLeaderboard (profiles d) (resources d)))"

section \<open>Sequences of review requests\<close>

text \<open>
  A request to one of the three mutating review handlers, with everything the handler
  reads besides the store: the outcomes of its store calls, the clock, the id for a new row,
  the signed-in user and the body.  \<open>run\<close> handles a sequence of requests one after the
  other; the store after each prefix is an observation point.
\<close>

datatype request =
    CreateReview faults timestamp uuid "string option" review_input
  | UpdateReview faults timestamp "string option" uuid review_update_input
  | DeleteReview faults timestamp "string option" uuid

fun handle :: "db \<Rightarrow> request \<Rightarrow> db" where
  "handle d (CreateReview fails now newId user body) = snd (createReview fails now newId user body d)"
| "handle d (UpdateReview fails now user rid body) = snd (updateReview fails now user rid body d)"
| "handle d (DeleteReview fails now user rid) = snd (deleteReview fails now user rid d)"

definition run :: "request list \<Rightarrow> db \<Rightarrow> db" where
  "run reqs d = foldl handle d reqs"

fun faults_of :: "request \<Rightarrow> faults" where
  "faults_of (CreateReview fails now newId user body) = fails"
| "faults_of (UpdateReview fails now user rid body) = fails"
| "faults_of (DeleteReview fails now user rid) = fails"

text \<open>The two store calls of \<open>refreshResourceRating\<close> succeed in this request.\<close>

definition refresh_succeeds :: "request \<Rightarrow> bool" where
  "refresh_succeeds q = (\<not> faults_of q RatingSelect \<and> \<not> faults_of q RatingUpdate)"

text \<open>At most one review for each pair of resource and reviewer.\<close>

definition unique_reviews :: "db \<Rightarrow> bool" where
  "unique_reviews d = distinct (map (\<lambda>v. (v_resource_id v, v_user_id v)) (reviews d))"

text \<open>The check constraint of the \<open>reviews\<close> table.\<close>

definition ratings_checked :: "db \<Rightarrow> bool" where
  "ratings_checked d = list_all (\<lambda>v. 1 \<le> v_rating v \<and> v_rating v \<le> 5) (reviews d)"

text \<open>Every resource row carries the count of its reviews and the average that
  \<open>refreshResourceRating\<close> computes from their ratings.\<close>

definition aggregate_ok :: "db \<Rightarrow> bool" where
  "aggregate_ok d =
     list_all (\<lambda>r. r_total_ratings r = length (ratings_of (r_id r) d) \<and>
                    r_average_rating r = averageRating (ratings_of (r_id r) d))
              (resources d)"

section \<open>The contracts in the words of the specification\<close>

text \<open>
  The specification's \<open>canView(viewer, resource)\<close>, for a viewer with an id and an
  affiliation, or no viewer: a public resource is always visible; a private one iff the
  viewer is present and is the owner or has the affiliation of the resource.
\<close>

record viewer =
  w_id :: uuid
  w_affiliation :: string

definition canView_spec :: "viewer option \<Rightarrow> resource_row \<Rightarrow> bool" where
  "canView_spec viewer resource =
     (case r_privacy resource of
        Public \<Rightarrow> True
      | Private \<Rightarrow>
          (case viewer of
             None \<Rightarrow> False
           | Some w \<Rightarrow> w_id w = r_uploader_id resource \<or> w_affiliation w = r_college resource))"

text \<open>
  The specification's aggregate: the arithmetic mean of the ratings, rounded half-up to one
  decimal place.  \<open>halfway ratings\<close> says that the exact mean lies midway between two
  neighbouring tenths.
\<close>

definition mean_half_up :: "int list \<Rightarrow> rat" where
  "mean_half_up ratings =
     of_int \<lfloor>(of_int (sum_list ratings) / of_int (int (length ratings)) :: rat) * 10 + 1 / 2\<rfloor>
       / 10"

definition halfway :: "int list \<Rightarrow> bool" where
  "halfway ratings = ((20 * sum_list ratings + int (length ratings)) mod (2 * int (length ratings)) = 0)"

section \<open>A small store for the examples\<close>

text \<open>
  Three profiles: Asha and Bilal at college X, Chitra at college Y.  Asha owns a public and a
  private resource, both created at time 1000; Bilal has reviewed the public one with
  rating 4 at time 5000; Chitra has an open request.
\<close>

definition asha :: uuid where "asha = ''a0000000-0000-4000-8000-00000000000a''"
definition bilal :: uuid where "bilal = ''b0000000-0000-4000-8000-00000000000b''"
definition chitra :: uuid where "chitra = ''c0000000-0000-4000-8000-00000000000c''"
definition notes_id :: uuid where "notes_id = ''10000000-0000-4000-8000-000000000001''"
definition draft_id :: uuid where "draft_id = ''20000000-0000-4000-8000-000000000002''"
definition review_id :: uuid where "review_id = ''30000000-0000-4000-8000-000000000003''"
definition request_id :: uuid where "request_id = ''40000000-0000-4000-8000-000000000004''"
definition fresh_id :: uuid where "fresh_id = ''50000000-0000-4000-8000-000000000005''"

definition example_profile :: "uuid \<Rightarrow> string \<Rightarrow> string \<Rightarrow> profile_row" where
  "example_profile uid name college =
     \<lparr>p_id = uid, p_name = name, p_college = college, p_course = ''BCA'',
      p_branch = ''General'', p_semester = ''3'', p_profile_image_url = None,
      p_created_at = 0\<rparr>"

definition example_resource :: "uuid \<Rightarrow> uuid \<Rightarrow> string \<Rightarrow> privacy \<Rightarrow> resource_row" where
  "example_resource rid uid college privacy =
     \<lparr>r_id = rid, r_uploader_id = uid, r_title = ''Notes'', r_subject = ''Algebra'',
      r_semester = ''3'', r_course = ''BCA'', r_branch = ''General'', r_type = ''Notes'',
      r_year = ''2024'', r_tags = [], r_description = [], r_privacy = privacy,
      r_file_url = None, r_drive_link = None, r_college = college, r_average_rating = 0,
      r_total_ratings = 0, r_downloads = 0, r_is_exam_important = False, r_created_at = 1000\<rparr>"

definition example_review :: review_row where
  "example_review =
     \<lparr>v_id = review_id, v_resource_id = notes_id, v_user_id = bilal, v_rating = 4,
      v_comment = ''clear'', v_created_at = 5000\<rparr>"

definition example_request :: request_row where
  "example_request =
     \<lparr>q_id = request_id, q_title = ''Past papers'', q_subject = ''Algebra'',
      q_semester = ''3'', q_description = [], q_requester_id = chitra, q_status = Open,
      q_fulfilled_resource_id = None, q_created_at = 2000\<rparr>"

definition example_db :: db where
  "example_db =
     \<lparr>profiles = [example_profile asha ''Asha'' ''X'', example_profile bilal ''Bilal'' ''X'',
                  example_profile chitra ''Chitra'' ''Y''],
      resources = [(example_resource notes_id asha ''X'' Public)
                     \<lparr>r_average_rating := 4, r_total_ratings := 1\<rparr>,
                   example_resource draft_id asha ''X'' Private],
      reviews = [example_review],
      resource_requests = [example_request]\<rparr>"

abbreviation notes_row :: resource_row where
  "notes_row \<equiv> (example_resource notes_id asha ''X'' Public)
                  \<lparr>r_average_rating := 4, r_total_ratings := 1\<rparr>"

abbreviation draft_row :: resource_row where
  "draft_row \<equiv> example_resource draft_id asha ''X'' Private"

definition no_review_update :: review_update_input where
  "no_review_update = \<lparr>u_rating = None, u_comment = None\<rparr>"

definition no_resource_update :: resource_update where
  "no_resource_update =
     \<lparr>e_title = None, e_subject = None, e_semester = None, e_course = None, e_branch = None,
      e_type = None, e_year = None, e_tags = None, e_description = None, e_privacy = None,
      e_fileUrl = None, e_driveLink = None, e_isExamImportant = None\<rparr>"

definition example_input :: resource_input where
  "example_input =
     \<lparr>n_title = ''Lab manual'', n_subject = ''Physics'', n_semester = ''2'', n_course = ''BSC'',
      n_branch = None, n_type = ''Notes'', n_year = ''2024'', n_tags = None,
      n_description = None, n_privacy = Private, n_fileUrl = None, n_driveLink = None,
      n_isExamImportant = None\<rparr>"

definition lab_row :: resource_row where
  "lab_row =
     \<lparr>r_id = fresh_id, r_uploader_id = chitra, r_title = ''Lab manual'', r_subject = ''Physics'',
      r_semester = ''2'', r_course = ''BSC'', r_branch = ''General'', r_type = ''Notes'',
      r_year = ''2024'', r_tags = [], r_description = [], r_privacy = Private,
      r_file_url = None, r_drive_link = None, r_college = ''Y'', r_average_rating = 0,
      r_total_ratings = 0, r_downloads = 0, r_is_exam_important = False, r_created_at = 7000\<rparr>"

definition college_change :: profile_update where
  "college_change =
     \<lparr>a_name = None, a_college = Some ''Z College'', a_course = None, a_branch = None,
      a_semester = None, a_profileImageUrl = None\<rparr>"

definition privacy_change :: resource_update where
  "privacy_change = no_resource_update\<lparr>e_privacy := Some Public, e_title := Some ''Lab notes''\<rparr>"

text \<open>The tokens of the sessions of Asha and Bilal, and a request of each with their token.\<close>

definition example_tokens :: "string \<Rightarrow> uuid option" where
  "example_tokens token =
     (if token = ''token-of-asha'' then Some asha
      else if token = ''token-of-bilal'' then Some bilal
      else None)"

definition asha_request :: http_request where
  "asha_request = \<lparr>authorization = Some ''Bearer token-of-asha''\<rparr>"

definition bilal_request :: http_request where
  "bilal_request = \<lparr>authorization = Some ''Bearer token-of-bilal''\<rparr>"

definition second_id :: uuid where "second_id = ''60000000-0000-4000-8000-000000000006''"

definition chitra_input :: review_input where
  "chitra_input = \<lparr>i_resourceId = notes_id, i_rating = 3, i_comment = None\<rparr>"

definition bilal_again :: review_input where
  "bilal_again = \<lparr>i_resourceId = notes_id, i_rating = 5, i_comment = None\<rparr>"

definition chitra_review :: review_row where
  "chitra_review =
     \<lparr>v_id = fresh_id, v_resource_id = notes_id, v_user_id = chitra, v_rating = 3,
      v_comment = [], v_created_at = 6000\<rparr>"

definition rating_two :: review_update_input where
  "rating_two = \<lparr>u_rating = Some 2, u_comment = None\<rparr>"

text \<open>Store call patterns for the examples: only the update, or only the select, of
  \<open>refreshResourceRating\<close> fails.\<close>

definition rating_update_fails :: faults where
  "rating_update_fails = (\<lambda>c. c = RatingUpdate)"

definition rating_select_fails :: faults where
  "rating_select_fails = (\<lambda>c. c = RatingSelect)"

text \<open>
  A store in which nineteen reviewers have rated the public resource of Asha: seventeen
  ratings of 1 and two of 2 (average 1.1, count 19).  A twentieth review with rating 2 makes
  the sum 23 and the exact mean 1.15.
\<close>

definition crowd_suffixes :: "string list" where
  "crowd_suffixes =
     [''01'', ''02'', ''03'', ''04'', ''05'', ''06'', ''07'', ''08'', ''09'', ''10'',
      ''11'', ''12'', ''13'', ''14'', ''15'', ''16'', ''17'', ''18'', ''19'']"

definition crowd_ratings :: "int list" where
  "crowd_ratings = [1, 1, 1, 1, 1, 1, 1, 1, 1, 1, 1, 1, 1, 1, 1, 1, 1, 2, 2]"

definition crowd_user :: "string \<Rightarrow> uuid" where
  "crowd_user sfx = ''d0000000-0000-4000-8000-0000000000'' @ sfx"

definition crowd_review :: "string \<times> int \<Rightarrow> review_row" where
  "crowd_review = (\<lambda>(sfx, x).
     \<lparr>v_id = ''e0000000-0000-4000-8000-0000000000'' @ sfx, v_resource_id = notes_id,
      v_user_id = crowd_user sfx, v_rating = x, v_comment = [], v_created_at = 5000\<rparr>)"

definition crowd_db :: db where
  "crowd_db =
     \<lparr>profiles = example_profile asha ''Asha'' ''X'' # example_profile chitra ''Chitra'' ''Y''
                  # map (\<lambda>sfx. example_profile (crowd_user sfx) ''Reader'' ''X'') crowd_suffixes,
      resources = [(example_resource notes_id asha ''X'' Public)
                     \<lparr>r_average_rating := 11 / 10, r_total_ratings := 19\<rparr>],
      reviews = map crowd_review (zip crowd_suffixes crowd_ratings),
      resource_requests = []\<rparr>"

definition twentieth_input :: review_input where
  "twentieth_input = \<lparr>i_resourceId = notes_id, i_rating = 2, i_comment = None\<rparr>"

definition twenty_ratings :: "int list" where
  "twenty_ratings = [1, 1, 1, 1, 1, 1, 1, 1, 1, 1, 1, 1, 1, 1, 1, 1, 1, 2, 2, 2]"

section \<open>Unfolding the examples\<close>

lemmas example_defs = example_db_def example_review_def example_resource_def example_profile_def
  example_request_def asha_def bilal_def chitra_def notes_id_def draft_id_def review_id_def
  request_id_def fresh_id_def no_faults_def no_review_update_def no_resource_update_def

lemmas example_defs2 = second_id_def chitra_input_def bilal_again_def chitra_review_def
  rating_two_def rating_update_fails_def rating_select_fails_def

lemmas crowd_defs = crowd_suffixes_def crowd_ratings_def crowd_user_def crowd_review_def
  crowd_db_def twentieth_input_def twenty_ratings_def

section \<open>Lookups and guarded mutations\<close>

lemma filter_map_same_id:
  assumes "\<And>x. key (g x) = key x"
  shows "filter (\<lambda>x. key x = k) (map (\<lambda>x. if key x = k then g x else x) xs)
         = map g (filter (\<lambda>x. key x = k) xs)"
  using assms by (induction xs) auto

lemma single_map: "single (map g xs) = map_option g (single xs)"
  by (cases xs rule: single.cases) auto

lemma v_id_apply_review_update [simp]: "v_id (apply_review_update b v) = v_id v"
  by (simp add: apply_review_update_def Let_def split: option.splits)

lemma r_id_apply_resource_update [simp]: "r_id (apply_resource_update b r) = r_id r"
  by (simp add: apply_resource_update_def)

lemma updateReview_found:
  assumes "uid \<noteq> []" "reviewUpdateSchema_ok body" "find_review fails rid d = Some v"
  shows "updateReview fails now (Some uid) rid body d =
           (if v_user_id v \<noteq> uid then (Inl NotOwner403, d)
            else if \<not> isWithin24Hours now (v_created_at v) then (Inl LockExpired403, d)
            else if fails ReviewUpdate \<or> review_update_empty body then (Inl Store500, d)
            else (Inr (apply_review_update body v),
                  refreshResourceRating fails (v_resource_id v)
                    (d\<lparr>reviews := map (\<lambda>v. if v_id v = rid then apply_review_update body v else v)
                                     (reviews d)\<rparr>)))"
proof -
  from assms(3) have s: "single (filter (\<lambda>v. v_id v = rid) (reviews d)) = Some v"
    by (simp add: find_review_def split: if_splits)
  have "single (filter (\<lambda>v. v_id v = rid)
          (map (\<lambda>v. if v_id v = rid then apply_review_update body v else v) (reviews d)))
        = Some (apply_review_update body v)"
    by (simp add: filter_map_same_id [where key = v_id and g = "apply_review_update body"] single_map s)
  then show ?thesis
    using assms by (simp add: updateReview_def Let_def)
qed

lemma deleteReview_found:
  assumes "uid \<noteq> []" "find_review fails rid d = Some v"
  shows "deleteReview fails now (Some uid) rid d =
           (if v_user_id v \<noteq> uid then (Inl NotOwner403, d)
            else if \<not> isWithin24Hours now (v_created_at v) then (Inl LockExpired403, d)
            else if fails ReviewDelete then (Inl Store500, d)
            else (Inr (),
                  refreshResourceRating fails (v_resource_id v)
                    (d\<lparr>reviews := filter (\<lambda>v. v_id v \<noteq> rid) (reviews d)\<rparr>)))"
  using assms by (simp add: deleteReview_def)

lemma updateResource_found:
  assumes "uid \<noteq> []" "resourceUpdateSchema_ok isUrl body" "find_resource fails rid d = Some r"
  shows "updateResource fails isUrl keeps now (Some uid) rid body d =
           (if r_uploader_id r \<noteq> uid then (Inl NotOwner403, d)
            else if \<not> isWithin24Hours now (r_created_at r) then (Inl LockExpired403, d)
            else if fails ResourceUpdate \<or> resource_update_empty (resourceUpdateSchema_parse keeps body)
            then (Inl Store500, d)
            else (Inr (apply_resource_update (resourceUpdateSchema_parse keeps body) r),
                  d\<lparr>resources :=
                      map (\<lambda>r. if r_id r = rid
                                then apply_resource_update (resourceUpdateSchema_parse keeps body) r
                                else r)
                          (resources d)\<rparr>))"
proof -
  from assms(3) have s: "single (filter (\<lambda>r. r_id r = rid) (resources d)) = Some r"
    by (simp add: find_resource_def split: if_splits)
  have "single (filter (\<lambda>r. r_id r = rid)
          (map (\<lambda>r. if r_id r = rid then apply_resource_update p r else r) (resources d)))
        = Some (apply_resource_update p r)" for p
    by (simp add: filter_map_same_id [where key = r_id and g = "apply_resource_update p"] single_map s)
  then show ?thesis
    using assms by (simp add: updateResource_def Let_def)
qed

text \<open>When the parsed data keeps the defaults, an update that names no field still writes
  four columns.\<close>

lemma resourceUpdateSchema_parse_defaults:
  "apply_resource_update (resourceUpdateSchema_parse True no_resource_update) r
     = r\<lparr>r_branch := ''General'', r_tags := [], r_description := [],
         r_is_exam_important := False\<rparr>"
  by (simp add: apply_resource_update_def resourceUpdateSchema_parse_def no_resource_update_def)

lemma resource_update_empty_parse [simp]:
  "\<not> resource_update_empty (resourceUpdateSchema_parse True body)"
  by (simp add: resource_update_empty_def resourceUpdateSchema_parse_def split: option.splits)

lemma deleteResource_found:
  assumes "uid \<noteq> []" "find_resource fails rid d = Some r"
  shows "deleteResource fails now (Some uid) rid d =
           (if r_uploader_id r \<noteq> uid then (Inl NotOwner403, d)
            else if \<not> isWithin24Hours now (r_created_at r) then (Inl LockExpired403, d)
            else if fails ResourceDelete then (Inl Store500, d)
            else (Inr (), delete_resource_rows rid d))"
  using assms by (simp add: deleteResource_def)

section \<open>The 24-hour lock\<close>

lemma LockExpired_updateReview:
  "fst (updateReview fails now user rid body d) = Inl LockExpired403 \<Longrightarrow>
   \<exists>v. find_review fails rid d = Some v \<and> LOCK_WINDOW_MS < now - v_created_at v"
  by (auto simp: updateReview_def isWithin24Hours_def Let_def split: option.splits if_splits)

lemma LockExpired_deleteReview:
  "fst (deleteReview fails now user rid d) = Inl LockExpired403 \<Longrightarrow>
   \<exists>v. find_review fails rid d = Some v \<and> LOCK_WINDOW_MS < now - v_created_at v"
  by (auto simp: deleteReview_def isWithin24Hours_def Let_def split: option.splits if_splits)

lemma LockExpired_updateResource:
  "fst (updateResource fails isUrl keeps now user rid body d) = Inl LockExpired403 \<Longrightarrow>
   \<exists>r. find_resource fails rid d = Some r \<and> LOCK_WINDOW_MS < now - r_created_at r"
  by (auto simp: updateResource_def isWithin24Hours_def Let_def split: option.splits if_splits)

lemma LockExpired_deleteResource:
  "fst (deleteResource fails now user rid d) = Inl LockExpired403 \<Longrightarrow>
   \<exists>r. find_resource fails rid d = Some r \<and> LOCK_WINDOW_MS < now - r_created_at r"
  by (auto simp: deleteResource_def isWithin24Hours_def Let_def split: option.splits if_splits)

text \<open>
  Claim C10.  The lock boundary is inclusive.  \<open>isWithin24Hours\<close> holds at exactly 24 hours
  after creation, so an owner's update or delete of a review or of a resource attempted at
  \<open>created_at + 24h\<close> passes the guard and goes to the store: the delete is carried out, and
  so is the update of a valid body that names a field, unless the store call fails; an update
  that names no field passes the guard too and is answered with the store error.  Whenever
  one of the four handlers answers with the lock error, strictly more than 24 hours have
  elapsed since the creation of the record.
\<close>

theorem C10_lock_boundary_inclusive:
  assumes "uid \<noteq> []"
  shows
    "LOCK_WINDOW_MS = 86400000 \<and> isWithin24Hours (t0 + LOCK_WINDOW_MS) t0 \<and>
     (find_review fails vid d = Some v \<and> v_user_id v = uid \<longrightarrow>
        (reviewUpdateSchema_ok vbody \<longrightarrow>
           fst (updateReview fails (v_created_at v + LOCK_WINDOW_MS) (Some uid) vid vbody d)
             = (if fails ReviewUpdate \<or> review_update_empty vbody then Inl Store500
                else Inr (apply_review_update vbody v))) \<and>
        fst (deleteReview fails (v_created_at v + LOCK_WINDOW_MS) (Some uid) vid d)
          = (if fails ReviewDelete then Inl Store500 else Inr ())) \<and>
     (find_resource fails rid d = Some r \<and> r_uploader_id r = uid \<longrightarrow>
        (resourceUpdateSchema_ok isUrl rbody \<longrightarrow>
           fst (updateResource fails isUrl keeps (r_created_at r + LOCK_WINDOW_MS) (Some uid) rid
                  rbody d)
             = (if fails ResourceUpdate
                   \<or> resource_update_empty (resourceUpdateSchema_parse keeps rbody)
                then Inl Store500
                else Inr (apply_resource_update (resourceUpdateSchema_parse keeps rbody) r))) \<and>
        fst (deleteResource fails (r_created_at r + LOCK_WINDOW_MS) (Some uid) rid d)
          = (if fails ResourceDelete then Inl Store500 else Inr ())) \<and>
     (fst (updateReview fails now user vid vbody d) = Inl LockExpired403 \<or>
      fst (deleteReview fails now user vid d) = Inl LockExpired403 \<longrightarrow>
        (\<exists>w. find_review fails vid d = Some w \<and> LOCK_WINDOW_MS < now - v_created_at w)) \<and>
     (fst (updateResource fails isUrl keeps now user rid rbody d) = Inl LockExpired403 \<or>
      fst (deleteResource fails now user rid d) = Inl LockExpired403 \<longrightarrow>
        (\<exists>w. find_resource fails rid d = Some w \<and> LOCK_WINDOW_MS < now - r_created_at w))"
proof -
  have a: "LOCK_WINDOW_MS = 86400000" "isWithin24Hours (t0 + LOCK_WINDOW_MS) t0"
    by (simp_all add: LOCK_WINDOW_MS_def isWithin24Hours_def)
  have b: "isWithin24Hours (t + LOCK_WINDOW_MS) t" for t
    by (simp add: isWithin24Hours_def)
  have c: "fst (updateReview fails (v_created_at v + LOCK_WINDOW_MS) (Some uid) vid vbody d)
             = (if fails ReviewUpdate \<or> review_update_empty vbody then Inl Store500
                else Inr (apply_review_update vbody v))"
    if "find_review fails vid d = Some v" "v_user_id v = uid" "reviewUpdateSchema_ok vbody"
    using that assms by (simp add: updateReview_found b)
  have e: "fst (deleteReview fails (v_created_at v + LOCK_WINDOW_MS) (Some uid) vid d)
          = (if fails ReviewDelete then Inl Store500 else Inr ())"
    if "find_review fails vid d = Some v" "v_user_id v = uid"
    using that assms by (simp add: deleteReview_found b)
  have f: "fst (updateResource fails isUrl keeps (r_created_at r + LOCK_WINDOW_MS) (Some uid) rid
                  rbody d)
             = (if fails ResourceUpdate
                   \<or> resource_update_empty (resourceUpdateSchema_parse keeps rbody)
                then Inl Store500
                else Inr (apply_resource_update (resourceUpdateSchema_parse keeps rbody) r))"
    if "find_resource fails rid d = Some r" "r_uploader_id r = uid"
      "resourceUpdateSchema_ok isUrl rbody"
    using that assms by (simp add: updateResource_found b)
  have g: "fst (deleteResource fails (r_created_at r + LOCK_WINDOW_MS) (Some uid) rid d)
          = (if fails ResourceDelete then Inl Store500 else Inr ())"
    if "find_resource fails rid d = Some r" "r_uploader_id r = uid"
    using that assms by (simp add: deleteResource_found b)
  have h: "\<exists>w. find_review fails vid d = Some w \<and> LOCK_WINDOW_MS < now - v_created_at w"
    if "fst (updateReview fails now user vid vbody d) = Inl LockExpired403 \<or>
        fst (deleteReview fails now user vid d) = Inl LockExpired403"
    using that LockExpired_updateReview LockExpired_deleteReview by blast
  have i: "\<exists>w. find_resource fails rid d = Some w \<and> LOCK_WINDOW_MS < now - r_created_at w"
    if "fst (updateResource fails isUrl keeps now user rid rbody d) = Inl LockExpired403 \<or>
        fst (deleteResource fails now user rid d) = Inl LockExpired403"
    using that LockExpired_updateResource LockExpired_deleteResource by blast
  show ?thesis
    using a c e f g h i by blast
qed

theorem C10_lock_boundary_inclusive_witness:
  "bilal \<noteq> [] \<and> asha \<noteq> [] \<and>
   find_review no_faults review_id example_db = Some example_review \<and>
   v_user_id example_review = bilal \<and> reviewUpdateSchema_ok rating_two \<and>
   reviewUpdateSchema_ok no_review_update \<and>
   fst (updateReview no_faults (5000 + 86400000) (Some bilal) review_id rating_two example_db)
     = Inr (example_review\<lparr>v_rating := 2\<rparr>) \<and>
   fst (updateReview no_faults (5000 + 86400000) (Some bilal) review_id no_review_update example_db)
     = Inl Store500 \<and>
   fst (deleteReview no_faults (5000 + 86400000) (Some bilal) review_id example_db) = Inr () \<and>
   fst (deleteReview no_faults (5000 + 86400001) (Some bilal) review_id example_db)
     = Inl LockExpired403 \<and>
   (\<exists>w. find_review no_faults review_id example_db = Some w \<and>
        LOCK_WINDOW_MS < 5000 + 86400001 - v_created_at w) \<and>
   find_resource no_faults draft_id example_db = Some draft_row \<and>
   r_uploader_id draft_row = asha \<and>
   resourceUpdateSchema_ok (\<lambda>u. True) privacy_change \<and>
   resourceUpdateSchema_ok (\<lambda>u. True) no_resource_update \<and>
   fst (updateResource no_faults (\<lambda>u. True) False (1000 + 86400000) (Some asha) draft_id
          privacy_change example_db)
     = Inr (draft_row\<lparr>r_title := ''Lab notes'', r_privacy := Public\<rparr>) \<and>
   fst (updateResource no_faults (\<lambda>u. True) False (1000 + 86400000) (Some asha) draft_id
          no_resource_update example_db)
     = Inl Store500 \<and>
   fst (updateResource no_faults (\<lambda>u. True) True (1000 + 86400000) (Some asha) draft_id
          no_resource_update example_db)
     = Inr draft_row \<and>
   fst (deleteResource no_faults (1000 + 86400000) (Some asha) draft_id example_db) = Inr () \<and>
   fst (deleteResource no_faults (1000 + 86400001) (Some asha) draft_id example_db)
     = Inl LockExpired403 \<and>
   (\<exists>w. find_resource no_faults draft_id example_db = Some w \<and>
        LOCK_WINDOW_MS < 1000 + 86400001 - r_created_at w)"
proof -
  have u: "bilal \<noteq> []" "asha \<noteq> []"
    by (simp_all add: bilal_def asha_def)
  have f: "find_review no_faults review_id example_db = Some example_review"
    by (simp add: find_review_def example_defs)
  have o: "v_user_id example_review = bilal" "reviewUpdateSchema_ok rating_two"
    "reviewUpdateSchema_ok no_review_update"
    "v_created_at example_review = 5000" "\<not> no_faults ReviewUpdate" "\<not> no_faults ReviewDelete"
    "apply_review_update rating_two example_review = example_review\<lparr>v_rating := 2\<rparr>"
    "\<not> review_update_empty rating_two" "review_update_empty no_review_update"
    by (simp_all add: example_defs rating_two_def reviewUpdateSchema_ok_def
        apply_review_update_def review_update_empty_def)
  have l: "fst (deleteReview no_faults (5000 + 86400001) (Some bilal) review_id example_db)
     = Inl LockExpired403"
    by (simp add: deleteReview_found [OF u(1) f] o isWithin24Hours_def LOCK_WINDOW_MS_def)
  have g: "find_resource no_faults draft_id example_db = Some draft_row"
    by (simp add: find_resource_def example_defs)
  have p: "r_uploader_id draft_row = asha"
    "resourceUpdateSchema_ok (\<lambda>u. True) privacy_change"
    "resourceUpdateSchema_ok (\<lambda>u. True) no_resource_update"
    "r_created_at draft_row = 1000"
    "\<not> no_faults ResourceUpdate" "\<not> no_faults ResourceDelete"
    "apply_resource_update (resourceUpdateSchema_parse False privacy_change) draft_row
       = draft_row\<lparr>r_title := ''Lab notes'', r_privacy := Public\<rparr>"
    "apply_resource_update (resourceUpdateSchema_parse True no_resource_update) draft_row
       = draft_row"
    "\<not> resource_update_empty (resourceUpdateSchema_parse False privacy_change)"
    "resource_update_empty (resourceUpdateSchema_parse False no_resource_update)"
    "\<not> resource_update_empty (resourceUpdateSchema_parse True no_resource_update)"
    by (simp_all add: example_resource_def no_resource_update_def privacy_change_def no_faults_def
        resourceUpdateSchema_ok_def min1_def apply_resource_update_def
        resourceUpdateSchema_parse_def resource_update_empty_def)
  have m: "fst (deleteResource no_faults (1000 + 86400001) (Some asha) draft_id example_db)
     = Inl LockExpired403"
    by (simp add: deleteResource_found [OF u(2) g] p isWithin24Hours_def LOCK_WINDOW_MS_def)
  note t1 = C10_lock_boundary_inclusive [OF u(1), where fails = no_faults and vid = review_id
      and d = example_db and v = example_review and vbody = rating_two
      and now = "5000 + 86400001" and user = "Some bilal"]
  note t1e = C10_lock_boundary_inclusive [OF u(1), where fails = no_faults and vid = review_id
      and d = example_db and v = example_review and vbody = no_review_update]
  note t2 = C10_lock_boundary_inclusive [OF u(2), where fails = no_faults and rid = draft_id
      and d = example_db and r = draft_row
      and rbody = privacy_change and isUrl = "\<lambda>u. True" and keeps = False
      and now = "1000 + 86400001" and user = "Some asha"]
  note t2e = C10_lock_boundary_inclusive [OF u(2), where fails = no_faults and rid = draft_id
      and d = example_db and r = draft_row
      and rbody = no_resource_update and isUrl = "\<lambda>u. True" and keeps = False]
  note t2k = C10_lock_boundary_inclusive [OF u(2), where fails = no_faults and rid = draft_id
      and d = example_db and r = draft_row
      and rbody = no_resource_update and isUrl = "\<lambda>u. True" and keeps = True]
  have w: "LOCK_WINDOW_MS = 86400000"
    by (simp add: LOCK_WINDOW_MS_def)
  from t1 f o have r1:
    "fst (updateReview no_faults (5000 + 86400000) (Some bilal) review_id rating_two example_db)
       = Inr (example_review\<lparr>v_rating := 2\<rparr>)"
    "fst (deleteReview no_faults (5000 + 86400000) (Some bilal) review_id example_db) = Inr ()"
    unfolding w by simp_all
  from t1e f o have r1e:
    "fst (updateReview no_faults (5000 + 86400000) (Some bilal) review_id no_review_update example_db)
       = Inl Store500"
    unfolding w by simp
  from t1 l have r2: "\<exists>w. find_review no_faults review_id example_db = Some w \<and>
        LOCK_WINDOW_MS < 5000 + 86400001 - v_created_at w"
    by blast
  from t2 g p have r3:
    "fst (updateResource no_faults (\<lambda>u. True) False (1000 + 86400000) (Some asha) draft_id
          privacy_change example_db)
     = Inr (draft_row\<lparr>r_title := ''Lab notes'', r_privacy := Public\<rparr>)"
    "fst (deleteResource no_faults (1000 + 86400000) (Some asha) draft_id example_db) = Inr ()"
    unfolding w by simp_all
  from t2e g p have r3e:
    "fst (updateResource no_faults (\<lambda>u. True) False (1000 + 86400000) (Some asha) draft_id
          no_resource_update example_db)
     = Inl Store500"
    unfolding w by simp
  from t2k g p have r3k:
    "fst (updateResource no_faults (\<lambda>u. True) True (1000 + 86400000) (Some asha) draft_id
          no_resource_update example_db)
     = Inr draft_row"
    unfolding w by simp
  from t2 m have r4: "\<exists>w. find_resource no_faults draft_id example_db = Some w \<and>
        LOCK_WINDOW_MS < 1000 + 86400001 - r_created_at w"
    by blast
  show ?thesis
    using u f o(1,2,3) l g p(1,2,3) m r1 r1e r2 r3 r3e r3k r4 by blast
qed

lemma created_at_kept:
  "v_created_at (apply_review_update vbody v) = v_created_at v"
  "r_created_at (apply_resource_update rbody r) = r_created_at r"
  by (simp_all add: apply_review_update_def apply_resource_update_def Let_def split: option.splits)

text \<open>
  Claim C4.  The owner and time-lock guard of the four mutating handlers (update and delete of
  a review, update and delete of a resource).  For a signed-in user, a record that the lookup
  finds and, for an update, a body that passes validation: the owner's request at
  \<open>created_at + 24h - 1s\<close> passes the guard and goes to the store, where the delete is
  carried out, and so is the update when its body names a field and the store call does not
  fail (an update that names no field is answered with the store error); the owner's request
  at \<open>created_at + 24h + 1s\<close> is answered with the lock error and changes nothing; and a
  request by anyone else is answered with the not-owner error at every time and changes
  nothing.  An update leaves \<open>created_at\<close> as it is, so the window stays anchored to the
  creation of the record.
\<close>

theorem C4_owner_and_time_lock:
  assumes "uid \<noteq> []"
  shows
    "(find_review fails vid d = Some v \<longrightarrow>
        (v_user_id v = uid \<longrightarrow>
           (reviewUpdateSchema_ok vbody \<longrightarrow>
              fst (updateReview fails (v_created_at v + LOCK_WINDOW_MS - 1000) (Some uid) vid vbody d)
                = (if fails ReviewUpdate \<or> review_update_empty vbody then Inl Store500
                   else Inr (apply_review_update vbody v)) \<and>
              updateReview fails (v_created_at v + LOCK_WINDOW_MS + 1000) (Some uid) vid vbody d
                = (Inl LockExpired403, d)) \<and>
           fst (deleteReview fails (v_created_at v + LOCK_WINDOW_MS - 1000) (Some uid) vid d)
             = (if fails ReviewDelete then Inl Store500 else Inr ()) \<and>
           deleteReview fails (v_created_at v + LOCK_WINDOW_MS + 1000) (Some uid) vid d
             = (Inl LockExpired403, d)) \<and>
        (v_user_id v \<noteq> uid \<longrightarrow>
           (reviewUpdateSchema_ok vbody \<longrightarrow>
              updateReview fails now (Some uid) vid vbody d = (Inl NotOwner403, d)) \<and>
           deleteReview fails now (Some uid) vid d = (Inl NotOwner403, d)) \<and>
        v_created_at (apply_review_update vbody v) = v_created_at v) \<and>
     (find_resource fails rid d = Some r \<longrightarrow>
        (r_uploader_id r = uid \<longrightarrow>
           (resourceUpdateSchema_ok isUrl rbody \<longrightarrow>
              fst (updateResource fails isUrl keeps (r_created_at r + LOCK_WINDOW_MS - 1000) (Some uid)
                     rid rbody d)
                = (if fails ResourceUpdate
                      \<or> resource_update_empty (resourceUpdateSchema_parse keeps rbody)
                   then Inl Store500
                   else Inr (apply_resource_update (resourceUpdateSchema_parse keeps rbody) r)) \<and>
              updateResource fails isUrl keeps (r_created_at r + LOCK_WINDOW_MS + 1000) (Some uid)
                rid rbody d
                = (Inl LockExpired403, d)) \<and>
           fst (deleteResource fails (r_created_at r + LOCK_WINDOW_MS - 1000) (Some uid) rid d)
             = (if fails ResourceDelete then Inl Store500 else Inr ()) \<and>
           deleteResource fails (r_created_at r + LOCK_WINDOW_MS + 1000) (Some uid) rid d
             = (Inl LockExpired403, d)) \<and>
        (r_uploader_id r \<noteq> uid \<longrightarrow>
           (resourceUpdateSchema_ok isUrl rbody \<longrightarrow>
              updateResource fails isUrl keeps now (Some uid) rid rbody d = (Inl NotOwner403, d)) \<and>
           deleteResource fails now (Some uid) rid d = (Inl NotOwner403, d)) \<and>
        r_created_at (apply_resource_update (resourceUpdateSchema_parse keeps rbody) r)
          = r_created_at r)"
proof -
  have b: "isWithin24Hours (t + LOCK_WINDOW_MS - 1000) t"
    "\<not> isWithin24Hours (t + LOCK_WINDOW_MS + 1000) t" for t
    by (simp_all add: isWithin24Hours_def)
  have v1: "find_review fails vid d = Some v \<longrightarrow>
        (v_user_id v = uid \<longrightarrow>
           (reviewUpdateSchema_ok vbody \<longrightarrow>
              fst (updateReview fails (v_created_at v + LOCK_WINDOW_MS - 1000) (Some uid) vid vbody d)
                = (if fails ReviewUpdate \<or> review_update_empty vbody then Inl Store500
                   else Inr (apply_review_update vbody v)) \<and>
              updateReview fails (v_created_at v + LOCK_WINDOW_MS + 1000) (Some uid) vid vbody d
                = (Inl LockExpired403, d)) \<and>
           fst (deleteReview fails (v_created_at v + LOCK_WINDOW_MS - 1000) (Some uid) vid d)
             = (if fails ReviewDelete then Inl Store500 else Inr ()) \<and>
           deleteReview fails (v_created_at v + LOCK_WINDOW_MS + 1000) (Some uid) vid d
             = (Inl LockExpired403, d)) \<and>
        (v_user_id v \<noteq> uid \<longrightarrow>
           (reviewUpdateSchema_ok vbody \<longrightarrow>
              updateReview fails now (Some uid) vid vbody d = (Inl NotOwner403, d)) \<and>
           deleteReview fails now (Some uid) vid d = (Inl NotOwner403, d)) \<and>
        v_created_at (apply_review_update vbody v) = v_created_at v"
    using assms
    by (simp add: updateReview_found deleteReview_found b created_at_kept)
  have v2: "find_resource fails rid d = Some r \<longrightarrow>
        (r_uploader_id r = uid \<longrightarrow>
           (resourceUpdateSchema_ok isUrl rbody \<longrightarrow>
              fst (updateResource fails isUrl keeps (r_created_at r + LOCK_WINDOW_MS - 1000) (Some uid)
                     rid rbody d)
                = (if fails ResourceUpdate
                      \<or> resource_update_empty (resourceUpdateSchema_parse keeps rbody)
                   then Inl Store500
                   else Inr (apply_resource_update (resourceUpdateSchema_parse keeps rbody) r)) \<and>
              updateResource fails isUrl keeps (r_created_at r + LOCK_WINDOW_MS + 1000) (Some uid)
                rid rbody d
                = (Inl LockExpired403, d)) \<and>
           fst (deleteResource fails (r_created_at r + LOCK_WINDOW_MS - 1000) (Some uid) rid d)
             = (if fails ResourceDelete then Inl Store500 else Inr ()) \<and>
           deleteResource fails (r_created_at r + LOCK_WINDOW_MS + 1000) (Some uid) rid d
             = (Inl LockExpired403, d)) \<and>
        (r_uploader_id r \<noteq> uid \<longrightarrow>
           (resourceUpdateSchema_ok isUrl rbody \<longrightarrow>
              updateResource fails isUrl keeps now (Some uid) rid rbody d = (Inl NotOwner403, d)) \<and>
           deleteResource fails now (Some uid) rid d = (Inl NotOwner403, d)) \<and>
        r_created_at (apply_resource_update (resourceUpdateSchema_parse keeps rbody) r)
          = r_created_at r"
    using assms
    by (simp add: updateResource_found deleteResource_found b created_at_kept)
  show ?thesis
    using v1 v2 by blast
qed

theorem C4_owner_and_time_lock_witness:
  "bilal \<noteq> [] \<and> asha \<noteq> [] \<and>
   find_review no_faults review_id example_db = Some example_review \<and>
   reviewUpdateSchema_ok rating_two \<and> reviewUpdateSchema_ok no_review_update \<and>
   v_user_id example_review = bilal \<and>
   fst (updateReview no_faults (5000 + 86400000 - 1000) (Some bilal) review_id rating_two
          example_db) = Inr (example_review\<lparr>v_rating := 2\<rparr>) \<and>
   fst (updateReview no_faults (5000 + 86400000 - 1000) (Some bilal) review_id no_review_update
          example_db) = Inl Store500 \<and>
   fst (deleteReview no_faults (5000 + 86400000 - 1000) (Some bilal) review_id example_db) = Inr () \<and>
   updateReview no_faults (5000 + 86400000 + 1000) (Some bilal) review_id rating_two example_db
     = (Inl LockExpired403, example_db) \<and>
   deleteReview no_faults (5000 + 86400000 + 1000) (Some bilal) review_id example_db
     = (Inl LockExpired403, example_db) \<and>
   updateReview no_faults 6000 (Some asha) review_id rating_two example_db
     = (Inl NotOwner403, example_db) \<and>
   deleteReview no_faults 6000 (Some asha) review_id example_db = (Inl NotOwner403, example_db) \<and>
   find_resource no_faults draft_id example_db = Some draft_row \<and>
   resourceUpdateSchema_ok (\<lambda>u. True) privacy_change \<and>
   resourceUpdateSchema_ok (\<lambda>u. True) no_resource_update \<and>
   r_uploader_id draft_row = asha \<and>
   fst (updateResource no_faults (\<lambda>u. True) False (1000 + 86400000 - 1000) (Some asha) draft_id
          privacy_change example_db)
     = Inr (draft_row\<lparr>r_title := ''Lab notes'', r_privacy := Public\<rparr>) \<and>
   fst (updateResource no_faults (\<lambda>u. True) False (1000 + 86400000 - 1000) (Some asha) draft_id
          no_resource_update example_db)
     = Inl Store500 \<and>
   fst (deleteResource no_faults (1000 + 86400000 - 1000) (Some asha) draft_id example_db) = Inr () \<and>
   updateResource no_faults (\<lambda>u. True) False (1000 + 86400000 + 1000) (Some asha) draft_id
          privacy_change example_db = (Inl LockExpired403, example_db) \<and>
   deleteResource no_faults (1000 + 86400000 + 1000) (Some asha) draft_id example_db
     = (Inl LockExpired403, example_db) \<and>
   updateResource no_faults (\<lambda>u. True) False 2000 (Some bilal) draft_id privacy_change example_db
     = (Inl NotOwner403, example_db) \<and>
   deleteResource no_faults 2000 (Some bilal) draft_id example_db = (Inl NotOwner403, example_db)"
proof -
  have u: "bilal \<noteq> []" "asha \<noteq> []"
    by (simp_all add: bilal_def asha_def)
  have w: "LOCK_WINDOW_MS = 86400000"
    by (simp add: LOCK_WINDOW_MS_def)
  have f: "find_review no_faults review_id example_db = Some example_review"
    by (simp add: find_review_def example_defs)
  have o: "v_user_id example_review = bilal" "reviewUpdateSchema_ok rating_two"
    "reviewUpdateSchema_ok no_review_update"
    "v_created_at example_review = 5000" "\<not> no_faults ReviewUpdate" "\<not> no_faults ReviewDelete"
    "apply_review_update rating_two example_review = example_review\<lparr>v_rating := 2\<rparr>"
    "v_user_id example_review \<noteq> asha"
    "\<not> review_update_empty rating_two" "review_update_empty no_review_update"
    by (simp_all add: example_defs rating_two_def reviewUpdateSchema_ok_def
        apply_review_update_def review_update_empty_def)
  have g: "find_resource no_faults draft_id example_db = Some draft_row"
    by (simp add: find_resource_def example_defs)
  have p: "r_uploader_id draft_row = asha"
    "resourceUpdateSchema_ok (\<lambda>u. True) privacy_change"
    "resourceUpdateSchema_ok (\<lambda>u. True) no_resource_update"
    "r_created_at draft_row = 1000"
    "\<not> no_faults ResourceUpdate" "\<not> no_faults ResourceDelete"
    "apply_resource_update (resourceUpdateSchema_parse False privacy_change) draft_row
       = draft_row\<lparr>r_title := ''Lab notes'', r_privacy := Public\<rparr>"
    "r_uploader_id draft_row \<noteq> bilal"
    "\<not> resource_update_empty (resourceUpdateSchema_parse False privacy_change)"
    "resource_update_empty (resourceUpdateSchema_parse False no_resource_update)"
    by (simp_all add: example_resource_def no_resource_update_def privacy_change_def no_faults_def
        resourceUpdateSchema_ok_def min1_def apply_resource_update_def asha_def bilal_def
        resourceUpdateSchema_parse_def resource_update_empty_def)
  note t1 = C4_owner_and_time_lock [OF u(1), where fails = no_faults and vid = review_id
      and d = example_db and v = example_review and vbody = rating_two
      and rid = draft_id and r = draft_row
      and rbody = privacy_change and isUrl = "\<lambda>u. True" and keeps = False and now = 2000]
  note t1e = C4_owner_and_time_lock [OF u(1), where fails = no_faults and vid = review_id
      and d = example_db and v = example_review and vbody = no_review_update]
  note t2 = C4_owner_and_time_lock [OF u(2), where fails = no_faults and vid = review_id
      and d = example_db and v = example_review and vbody = rating_two
      and rid = draft_id and r = draft_row
      and rbody = privacy_change and isUrl = "\<lambda>u. True" and keeps = False and now = 6000]
  note t2e = C4_owner_and_time_lock [OF u(2), where fails = no_faults
      and d = example_db and rid = draft_id and r = draft_row
      and rbody = no_resource_update and isUrl = "\<lambda>u. True" and keeps = False]
  from t1 f o have r1:
    "fst (updateReview no_faults (5000 + 86400000 - 1000) (Some bilal) review_id rating_two
          example_db) = Inr (example_review\<lparr>v_rating := 2\<rparr>)"
    "fst (deleteReview no_faults (5000 + 86400000 - 1000) (Some bilal) review_id example_db) = Inr ()"
    "updateReview no_faults (5000 + 86400000 + 1000) (Some bilal) review_id rating_two
       example_db = (Inl LockExpired403, example_db)"
    "deleteReview no_faults (5000 + 86400000 + 1000) (Some bilal) review_id example_db
     = (Inl LockExpired403, example_db)"
    unfolding w by simp_all
  from t1e f o have r1e:
    "fst (updateReview no_faults (5000 + 86400000 - 1000) (Some bilal) review_id no_review_update
          example_db) = Inl Store500"
    unfolding w by simp
  from t2 f o have r2:
    "updateReview no_faults 6000 (Some asha) review_id rating_two example_db
     = (Inl NotOwner403, example_db)"
    "deleteReview no_faults 6000 (Some asha) review_id example_db = (Inl NotOwner403, example_db)"
    unfolding w by simp_all
  from t2 g p have r3:
    "fst (updateResource no_faults (\<lambda>u. True) False (1000 + 86400000 - 1000) (Some asha) draft_id
          privacy_change example_db)
     = Inr (draft_row\<lparr>r_title := ''Lab notes'', r_privacy := Public\<rparr>)"
    "fst (deleteResource no_faults (1000 + 86400000 - 1000) (Some asha) draft_id example_db) = Inr ()"
    "updateResource no_faults (\<lambda>u. True) False (1000 + 86400000 + 1000) (Some asha) draft_id
          privacy_change example_db = (Inl LockExpired403, example_db)"
    "deleteResource no_faults (1000 + 86400000 + 1000) (Some asha) draft_id example_db
     = (Inl LockExpired403, example_db)"
    unfolding w by simp_all
  from t2e g p have r3e:
    "fst (updateResource no_faults (\<lambda>u. True) False (1000 + 86400000 - 1000) (Some asha) draft_id
          no_resource_update example_db)
     = Inl Store500"
    unfolding w by simp
  from t1 g p have r4:
    "updateResource no_faults (\<lambda>u. True) False 2000 (Some bilal) draft_id privacy_change example_db
     = (Inl NotOwner403, example_db)"
    "deleteResource no_faults 2000 (Some bilal) draft_id example_db = (Inl NotOwner403, example_db)"
    unfolding w by simp_all
  show ?thesis
    using u f o(1,2,3) g p(1,2,3) r1 r1e r2 r3 r3e r4 by blast
qed

section \<open>Visibility\<close>

lemma privacy_not_Public [simp]: "(p \<noteq> Public) = (p = Private)"
  by (cases p) auto

lemma visible_iff:
  "visible user college r =
     (r_privacy r = Public \<or>
      truthy user \<and> truthy college \<and>
      (user = Some (r_uploader_id r) \<or> college = Some (r_college r)))"
  by (auto simp: visible_def)

lemma getResourceById_found:
  assumes "find_resource fails rid d = Some r"
  shows "getResourceById fails user rid d =
           (if r_privacy r = Public \<or>
               truthy user \<and>
               (user = Some (r_uploader_id r) \<or> viewer_college fails user d = Some (r_college r))
            then Inr r else Inl AccessDenied403)"
  using assms
  by (cases user; cases "r_privacy r")
     (auto simp: getResourceById_def viewer_college_def Let_def)

text \<open>
  For the user that the handlers read from the request, and a college found for that user,
  the filter of \<open>getResources\<close> is the contract's \<open>canView\<close>, and \<open>getResourceById\<close>
  answers by the same filter.
\<close>

lemma visible_canView_spec:
  assumes "w_id w \<noteq> []" "w_affiliation w \<noteq> []"
  shows "visible (Some (w_id w)) (Some (w_affiliation w)) r = canView_spec (Some w) r"
  using assms by (cases "r_privacy r") (auto simp: visible_def canView_spec_def)

lemma visible_anonymous: "visible None college r = canView_spec None r"
  by (cases "r_privacy r") (simp_all add: visible_def canView_spec_def)

lemma getResourceById_visible:
  assumes "find_resource fails rid d = Some r" "truthy (viewer_college fails user d) \<or> \<not> truthy user"
  shows "getResourceById fails user rid d =
           (if visible user (viewer_college fails user d) r then Inr r else Inl AccessDenied403)"
proof -
  have "truthy user" if "truthy (viewer_college fails user d)"
    using that by (cases user) (auto simp: viewer_college_def split: if_splits)
  then show ?thesis
    using assms by (auto simp: getResourceById_found visible_iff)
qed

text \<open>
  The two routes call the handlers without a user: whatever the request carries, the list
  has the public rows of the query only, and a private resource is never returned.
\<close>

lemma GET_resources_public_only:
  "GET_resources fails getUser req rows d =
     (if fails ResourceQuery then Inl Store500 else Inr (filter (\<lambda>r. r_privacy r = Public) rows))"
proof -
  have "visible None None = (\<lambda>r. r_privacy r = Public)"
    by (rule ext) (simp add: visible_def)
  then show ?thesis
    by (simp add: GET_resources_def getResources_def viewer_college_def)
qed

lemma GET_resource_private_denied:
  assumes "find_resource fails rid d = Some r"
  shows "GET_resource fails getUser req rid d =
           (if r_privacy r = Public then Inr r else Inl AccessDenied403)"
  using assms by (simp add: GET_resource_def getResourceById_found)

text \<open>
  Claim C1.  A private resource is visible to its owner and to a viewer with the affiliation
  of the resource, on the single-item fetch and on the list alike.  The program does not do
  so.  Asha owns the private resource and sends her token, which the middleware of the
  sibling route \<open>PUT /:id\<close> resolves to her, so that she may edit the resource there; Bilal is
  at her college and sends his.  The contract makes the resource visible to both, and the
  handlers would return it for either user; but \<open>GET /:id\<close> answers both with the
  access-denied error, and \<open>GET /\<close> leaves the resource out of the list, in whichever order
  the store returns the two rows.
\<close>

theorem C1_private_resource_hidden_from_owner:
  "authMiddleware example_tokens asha_request = Inr asha \<and>
   authMiddleware example_tokens bilal_request = Inr bilal \<and>
   find_resource no_faults draft_id example_db = Some draft_row \<and>
   r_privacy draft_row = Private \<and> r_uploader_id draft_row = asha \<and>
   r_college draft_row = ''X'' \<and>
   lookup_college no_faults asha example_db = Some ''X'' \<and>
   lookup_college no_faults bilal example_db = Some ''X'' \<and>
   canView_spec (Some \<lparr>w_id = asha, w_affiliation = ''X''\<rparr>) draft_row \<and>
   canView_spec (Some \<lparr>w_id = bilal, w_affiliation = ''X''\<rparr>) draft_row \<and>
   getResourceById no_faults (Some asha) draft_id example_db = Inr draft_row \<and>
   getResourceById no_faults (Some bilal) draft_id example_db = Inr draft_row \<and>
   GET_resource no_faults example_tokens asha_request draft_id example_db = Inl AccessDenied403 \<and>
   GET_resource no_faults example_tokens bilal_request draft_id example_db = Inl AccessDenied403 \<and>
   query_rows (\<lambda>r. True) example_db [notes_row, draft_row] \<and>
   query_rows (\<lambda>r. True) example_db [draft_row, notes_row] \<and>
   getResources no_faults (Some asha) [notes_row, draft_row] example_db
     = Inr [notes_row, draft_row] \<and>
   GET_resources no_faults example_tokens asha_request [notes_row, draft_row] example_db
     = Inr [notes_row] \<and>
   GET_resources no_faults example_tokens asha_request [draft_row, notes_row] example_db
     = Inr [notes_row] \<and>
   GET_resources no_faults example_tokens bilal_request [notes_row, draft_row] example_db
     = Inr [notes_row] \<and>
   fst (PUT_resource no_faults example_tokens (\<lambda>u. True) False 2000 asha_request draft_id
          privacy_change example_db)
     = Inr (draft_row\<lparr>r_title := ''Lab notes'', r_privacy := Public\<rparr>)"
proof -
  have a: "authMiddleware example_tokens asha_request = Inr asha"
    "authMiddleware example_tokens bilal_request = Inr bilal"
    by (simp_all add: authMiddleware_def example_tokens_def asha_request_def bilal_request_def)
  have f: "find_resource no_faults draft_id example_db = Some draft_row"
    by (simp add: find_resource_def example_defs)
  have p: "r_privacy draft_row = Private" "r_uploader_id draft_row = asha"
    "r_college draft_row = ''X''" "r_privacy notes_row = Public"
    by (simp_all add: example_resource_def)
  have c: "lookup_college no_faults asha example_db = Some ''X''"
    "lookup_college no_faults bilal example_db = Some ''X''"
    by (simp_all add: lookup_college_def example_defs)
  have n: "asha \<noteq> []" "bilal \<noteq> []" "bilal \<noteq> asha" "\<not> no_faults ResourceQuery"
    "\<not> no_faults ResourceUpdate"
    by (simp_all add: asha_def bilal_def no_faults_def)
  have s: "canView_spec (Some \<lparr>w_id = asha, w_affiliation = ''X''\<rparr>) draft_row"
    "canView_spec (Some \<lparr>w_id = bilal, w_affiliation = ''X''\<rparr>) draft_row"
    by (simp_all add: canView_spec_def p)
  have h: "getResourceById no_faults (Some asha) draft_id example_db = Inr draft_row"
    "getResourceById no_faults (Some bilal) draft_id example_db = Inr draft_row"
    by (simp_all add: getResourceById_found [OF f] p n viewer_college_def c)
  have g: "GET_resource no_faults example_tokens asha_request draft_id example_db
             = Inl AccessDenied403"
    "GET_resource no_faults example_tokens bilal_request draft_id example_db
             = Inl AccessDenied403"
    by (simp_all add: GET_resource_def getResourceById_found [OF f] p)
  have q: "query_rows (\<lambda>r. True) example_db [notes_row, draft_row]"
    "query_rows (\<lambda>r. True) example_db [draft_row, notes_row]"
    by (simp_all add: query_rows_def example_db_def example_resource_def)
  have l0: "getResources no_faults (Some asha) [notes_row, draft_row] example_db
     = Inr [notes_row, draft_row]"
    by (simp add: getResources_def viewer_college_def c n visible_def example_resource_def Let_def)
  have l: "GET_resources no_faults example_tokens asha_request [notes_row, draft_row] example_db
     = Inr [notes_row]"
    "GET_resources no_faults example_tokens asha_request [draft_row, notes_row] example_db
     = Inr [notes_row]"
    "GET_resources no_faults example_tokens bilal_request [notes_row, draft_row] example_db
     = Inr [notes_row]"
    by (simp_all add: GET_resources_def getResources_def viewer_college_def n visible_def
        example_resource_def Let_def)
  have v: "resourceUpdateSchema_ok (\<lambda>u. True) privacy_change"
    "isWithin24Hours 2000 (r_created_at draft_row)"
    "apply_resource_update (resourceUpdateSchema_parse False privacy_change) draft_row
       = draft_row\<lparr>r_title := ''Lab notes'', r_privacy := Public\<rparr>"
    "\<not> resource_update_empty (resourceUpdateSchema_parse False privacy_change)"
    by (simp_all add: resourceUpdateSchema_ok_def min1_def privacy_change_def
        no_resource_update_def example_resource_def isWithin24Hours_def LOCK_WINDOW_MS_def
        apply_resource_update_def resourceUpdateSchema_parse_def resource_update_empty_def)
  have e: "fst (PUT_resource no_faults example_tokens (\<lambda>u. True) False 2000 asha_request draft_id
          privacy_change example_db)
     = Inr (draft_row\<lparr>r_title := ''Lab notes'', r_privacy := Public\<rparr>)"
    by (simp add: PUT_resource_def a updateResource_found [OF n(1) v(1) f] p n v)
  show ?thesis
    using a f p(1,2,3) c s h g q l0 l e by blast
qed

section \<open>Fulfilling a request\<close>

lemma map_if_no_match:
  "\<not> list_ex (\<lambda>x. key x = k) xs \<Longrightarrow> map (\<lambda>x. if key x = k then g x else x) xs = xs"
  by (induction xs) auto

text \<open>
  Claim C6 (amended).  \<open>fulfillRequest\<close> never answers not-found.  For a signed-in caller,
  a non-empty \<open>resourceId\<close> and a store call that does not fail: when no request has the id
  of the route the answer is success and nothing changes; when a request has it and a
  resource with \<open>resourceId\<close> exists, the answer is success and the request gets status
  fulfilled and \<open>fulfilled_resource_id = resourceId\<close>, whatever its status and whoever its
  requester; when a request has it and no resource has \<open>resourceId\<close>, the foreign key
  rejects the update, the answer is a store error and nothing changes.
\<close>

theorem C6_fulfill_request:
  "fst (fulfillRequest fails user resourceId qid d) \<noteq> Inl NotFound404 \<and>
   (truthy user \<and> resourceId = Some res \<and> res \<noteq> [] \<and> \<not> fails RequestUpdate \<longrightarrow>
      (\<not> list_ex (\<lambda>q. q_id q = qid) (resource_requests d) \<longrightarrow>
         fulfillRequest fails user resourceId qid d = (Inr (), d)) \<and>
      (list_ex (\<lambda>q. q_id q = qid) (resource_requests d) \<and> res \<in> set (map r_id (resources d)) \<longrightarrow>
         fulfillRequest fails user resourceId qid d =
           (Inr (),
            d\<lparr>resource_requests :=
                 map (\<lambda>q. if q_id q = qid
                           then q\<lparr>q_status := Fulfilled, q_fulfilled_resource_id := Some res\<rparr>
                           else q)
                     (resource_requests d)\<rparr>)) \<and>
      (list_ex (\<lambda>q. q_id q = qid) (resource_requests d) \<and> res \<notin> set (map r_id (resources d)) \<longrightarrow>
         fulfillRequest fails user resourceId qid d = (Inl Store500, d)))"
proof -
  have a: "fst (fulfillRequest fails user resourceId qid d) \<noteq> Inl NotFound404"
    by (simp add: fulfillRequest_def split: option.splits)
  have b: "fulfillRequest fails user (Some res) qid d = (Inr (), d)"
    if "truthy user" "res \<noteq> []" "\<not> fails RequestUpdate"
      "\<not> list_ex (\<lambda>q. q_id q = qid) (resource_requests d)"
    using that by (simp add: fulfillRequest_def map_if_no_match [where key = q_id])
  show ?thesis
    using a b by (auto simp: fulfillRequest_def)
qed

text \<open>The claim as stated fails for a request id that no request has: the answer is
  success, not not-found.\<close>

theorem C6_counterexample:
  "\<not> list_ex (\<lambda>q. q_id q = fresh_id) (resource_requests example_db) \<and>
   fulfillRequest no_faults (Some bilal) (Some notes_id) fresh_id example_db = (Inr (), example_db)"
  by (simp add: fulfillRequest_def example_defs)

theorem C6_fulfill_request_witness:
  "truthy (Some bilal) \<and> notes_id \<noteq> [] \<and> fresh_id \<noteq> [] \<and> \<not> no_faults RequestUpdate \<and>
   list_ex (\<lambda>q. q_id q = request_id) (resource_requests example_db) \<and>
   \<not> list_ex (\<lambda>q. q_id q = fresh_id) (resource_requests example_db) \<and>
   notes_id \<in> set (map r_id (resources example_db)) \<and>
   fresh_id \<notin> set (map r_id (resources example_db)) \<and>
   q_requester_id example_request \<noteq> bilal \<and>
   fulfillRequest no_faults (Some bilal) (Some notes_id) request_id example_db =
     (Inr (),
      example_db\<lparr>resource_requests :=
        [example_request\<lparr>q_status := Fulfilled, q_fulfilled_resource_id := Some notes_id\<rparr>]\<rparr>) \<and>
   fulfillRequest no_faults (Some bilal) (Some notes_id) fresh_id example_db = (Inr (), example_db) \<and>
   fulfillRequest no_faults (Some bilal) (Some fresh_id) request_id example_db
     = (Inl Store500, example_db)"
proof -
  have h: "truthy (Some bilal)" "notes_id \<noteq> []" "fresh_id \<noteq> []" "\<not> no_faults RequestUpdate"
    "list_ex (\<lambda>q. q_id q = request_id) (resource_requests example_db)"
    "\<not> list_ex (\<lambda>q. q_id q = fresh_id) (resource_requests example_db)"
    "notes_id \<in> set (map r_id (resources example_db))"
    "fresh_id \<notin> set (map r_id (resources example_db))"
    "q_requester_id example_request \<noteq> bilal"
    by (simp_all add: example_defs)
  have m: "map (\<lambda>q. if q_id q = request_id
                     then q\<lparr>q_status := Fulfilled, q_fulfilled_resource_id := Some notes_id\<rparr>
                     else q)
             (resource_requests example_db)
           = [example_request\<lparr>q_status := Fulfilled, q_fulfilled_resource_id := Some notes_id\<rparr>]"
    by (simp add: example_db_def example_request_def)
  note t1 = C6_fulfill_request [where fails = no_faults and user = "Some bilal"
      and resourceId = "Some notes_id" and res = notes_id and qid = request_id and d = example_db]
  note t2 = C6_fulfill_request [where fails = no_faults and user = "Some bilal"
      and resourceId = "Some notes_id" and res = notes_id and qid = fresh_id and d = example_db]
  note t3 = C6_fulfill_request [where fails = no_faults and user = "Some bilal"
      and resourceId = "Some fresh_id" and res = fresh_id and qid = request_id and d = example_db]
  from t1 h have r1: "fulfillRequest no_faults (Some bilal) (Some notes_id) request_id example_db =
     (Inr (),
      example_db\<lparr>resource_requests :=
        [example_request\<lparr>q_status := Fulfilled, q_fulfilled_resource_id := Some notes_id\<rparr>]\<rparr>)"
    unfolding m by blast
  from t2 h have r2:
    "fulfillRequest no_faults (Some bilal) (Some notes_id) fresh_id example_db = (Inr (), example_db)"
    by blast
  from t3 h have r3: "fulfillRequest no_faults (Some bilal) (Some fresh_id) request_id example_db
     = (Inl Store500, example_db)"
    by blast
  show ?thesis
    using h r1 r2 r3 by blast
qed

section \<open>Leaderboard\<close>

lemma get_or_zero_add_points:
  "get_or_zero (add_points m r) u =
     get_or_zero m u + (if r_uploader_id r = u then (if r_privacy r = Public then 10 else 5) else 0)"
  by (simp add: get_or_zero_def add_points_def Let_def)

lemma foldl_add_points:
  "get_or_zero (foldl add_points m rs) u =
     get_or_zero m u
     + (\<Sum>r\<leftarrow>filter (\<lambda>r. r_uploader_id r = u) rs. if r_privacy r = Public then 10 else 5)"
proof (induction rs arbitrary: m)
  case Nil
  then show ?case by simp
next
  case (Cons r rs)
  show ?case
    by (simp add: Cons.IH get_or_zero_add_points)
qed

lemma points_of_entry:
  "l_points (entry_of (pointsByUser rs) p) =
     (\<Sum>r\<leftarrow>filter (\<lambda>r. r_uploader_id r = p_id p) rs. if r_privacy r = Public then 10 else 5)"
  using foldl_add_points [of Map.empty rs "p_id p"]
  by (simp add: entry_of_def pointsByUser_def get_or_zero_def)

lemma sum_points_split:
  "(\<Sum>r\<leftarrow>rs. if r_privacy r = Public then 10 else (5::nat)) =
     10 * length (filter (\<lambda>r. r_privacy r = Public) rs)
     + 5 * length (filter (\<lambda>r. r_privacy r = Private) rs)"
  by (induction rs) auto

lemma entry_of_pointsByUser:
  "entry_of (pointsByUser rs) p =
     \<lparr>l_id = p_id p, l_name = p_name p, l_college = p_college p, l_branch = p_branch p,
      l_points = 10 * length (filter (\<lambda>r. r_uploader_id r = p_id p \<and> r_privacy r = Public) rs)
               + 5 * length (filter (\<lambda>r. r_uploader_id r = p_id p \<and> r_privacy r = Private) rs)\<rparr>"
proof -
  have "l_points (entry_of (pointsByUser rs) p)
      = 10 * length (filter (\<lambda>r. r_uploader_id r = p_id p \<and> r_privacy r = Public) rs)
               + 5 * length (filter (\<lambda>r. r_uploader_id r = p_id p \<and> r_privacy r = Private) rs)"
    by (simp add: points_of_entry sum_points_split conj_commute)
  then show ?thesis
    by (simp add: entry_of_def)
qed

text \<open>
  Claim C7.  The leaderboard has one entry for each profile, carrying 10 points for each
  public resource and 5 points for each private resource that the profile has uploaded; a
  profile without resources is in it with 0 points; and it is ordered by descending points.
\<close>

theorem C7_leaderboard:
  "mset (computeLeaderboard ps rs) =
     mset (map (\<lambda>p. \<lparr>l_id = p_id p, l_name = p_name p, l_college = p_college p,
                      l_branch = p_branch p,
                      l_points = 10 * length (filter (\<lambda>r. r_uploader_id r = p_id p \<and> r_privacy r = Public) rs)
                               + 5 * length (filter (\<lambda>r. r_uploader_id r = p_id p \<and> r_privacy r = Private) rs)\<rparr>) ps) \<and>
   (\<forall>p \<in> set ps. (\<forall>r \<in> set rs. r_uploader_id r \<noteq> p_id p) \<longrightarrow>
      \<lparr>l_id = p_id p, l_name = p_name p, l_college = p_college p, l_branch = p_branch p,
       l_points = 0\<rparr> \<in> set (computeLeaderboard ps rs)) \<and>
   sorted_wrt (\<lambda>a b. l_points a \<ge> l_points b) (computeLeaderboard ps rs) \<and>
   length (computeLeaderboard ps rs) = length ps"
proof -
  have m: "map (entry_of (pointsByUser rs)) ps =
     map (\<lambda>p. \<lparr>l_id = p_id p, l_name = p_name p, l_college = p_college p,
                      l_branch = p_branch p,
                      l_points = 10 * length (filter (\<lambda>r. r_uploader_id r = p_id p \<and> r_privacy r = Public) rs)
                               + 5 * length (filter (\<lambda>r. r_uploader_id r = p_id p \<and> r_privacy r = Private) rs)\<rparr>) ps"
    by (simp add: entry_of_pointsByUser)
  have a: "mset (computeLeaderboard ps rs) = mset (map (entry_of (pointsByUser rs)) ps)"
    by (simp add: computeLeaderboard_def)
  have z: "\<lparr>l_id = p_id p, l_name = p_name p, l_college = p_college p, l_branch = p_branch p,
       l_points = 0\<rparr> \<in> set (computeLeaderboard ps rs)"
    if "p \<in> set ps" "\<forall>r \<in> set rs. r_uploader_id r \<noteq> p_id p" for p
  proof -
    from that(2) have "filter (\<lambda>r. r_uploader_id r = p_id p \<and> r_privacy r = x) rs = []" for x
      by (simp add: filter_empty_conv)
    then have "entry_of (pointsByUser rs) p =
      \<lparr>l_id = p_id p, l_name = p_name p, l_college = p_college p, l_branch = p_branch p,
       l_points = 0\<rparr>"
      by (simp add: entry_of_pointsByUser)
    moreover have "entry_of (pointsByUser rs) p \<in> set (computeLeaderboard ps rs)"
      using that(1) by (simp add: computeLeaderboard_def)
    ultimately show ?thesis by simp
  qed
  have "sorted (map (\<lambda>e. - int (l_points e)) (computeLeaderboard ps rs))"
    by (simp add: computeLeaderboard_def)
  then have s: "sorted_wrt (\<lambda>a b. l_points a \<ge> l_points b) (computeLeaderboard ps rs)"
    by (simp add: sorted_map)
  have l: "length (computeLeaderboard ps rs) = length ps"
    by (simp add: computeLeaderboard_def)
  show ?thesis
    using a m z s l by simp
qed

theorem C7_leaderboard_witness:
  "example_profile bilal ''Bilal'' ''X'' \<in> set (profiles example_db) \<and>
   resources example_db = [notes_row, draft_row] \<and>
   r_uploader_id notes_row \<noteq> bilal \<and> r_uploader_id draft_row \<noteq> bilal \<and>
   \<lparr>l_id = bilal, l_name = ''Bilal'', l_college = ''X'', l_branch = ''General'', l_points = 0\<rparr>
     \<in> set (computeLeaderboard (profiles example_db) (resources example_db)) \<and>
   computeLeaderboard (profiles example_db) (resources example_db) =
     [\<lparr>l_id = asha, l_name = ''Asha'', l_college = ''X'', l_branch = ''General'', l_points = 15\<rparr>,
      \<lparr>l_id = bilal, l_name = ''Bilal'', l_college = ''X'', l_branch = ''General'', l_points = 0\<rparr>,
      \<lparr>l_id = chitra, l_name = ''Chitra'', l_college = ''Y'', l_branch = ''General'',
       l_points = 0\<rparr>]"
proof -
  have h: "example_profile bilal ''Bilal'' ''X'' \<in> set (profiles example_db)"
    "resources example_db = [notes_row, draft_row]"
    "r_uploader_id notes_row \<noteq> bilal" "r_uploader_id draft_row \<noteq> bilal"
    by (simp_all add: example_defs)
  have e: "p_id (example_profile bilal ''Bilal'' ''X'') = bilal"
    "p_name (example_profile bilal ''Bilal'' ''X'') = ''Bilal''"
    "p_college (example_profile bilal ''Bilal'' ''X'') = ''X''"
    "p_branch (example_profile bilal ''Bilal'' ''X'') = ''General''"
    by (simp_all add: example_profile_def)
  from C7_leaderboard [of "profiles example_db" "resources example_db"] h
  have r: "\<lparr>l_id = bilal, l_name = ''Bilal'', l_college = ''X'', l_branch = ''General'', l_points = 0\<rparr>
     \<in> set (computeLeaderboard (profiles example_db) (resources example_db))"
    unfolding h(2) using e by fastforce
  have c: "computeLeaderboard (profiles example_db) (resources example_db) =
     [\<lparr>l_id = asha, l_name = ''Asha'', l_college = ''X'', l_branch = ''General'', l_points = 15\<rparr>,
      \<lparr>l_id = bilal, l_name = ''Bilal'', l_college = ''X'', l_branch = ''General'', l_points = 0\<rparr>,
      \<lparr>l_id = chitra, l_name = ''Chitra'', l_college = ''Y'', l_branch = ''General'',
       l_points = 0\<rparr>]"
    by (simp add: computeLeaderboard_def pointsByUser_def add_points_def entry_of_def
        get_or_zero_def example_defs Let_def)
  show ?thesis
    using h r c by blast
qed

lemma mset_entries:
  assumes "mset rs = mset rs'"
  shows "entry_of (pointsByUser rs) p = entry_of (pointsByUser rs') p"
proof -
  have "length (filter P rs) = length (filter P rs')" for P
    using assms by (metis mset_filter size_mset)
  then show ?thesis
    by (simp add: entry_of_pointsByUser)
qed

text \<open>
  Claim C9.  Reordering the profiles and the resources does not change the multiset of point
  values of the leaderboard (nor the multiset of its entries); only the order among entries
  with equal points follows the order of the profiles.
\<close>

theorem C9_leaderboard_order_independent:
  assumes "mset ps = mset ps'" and "mset rs = mset rs'"
  shows "mset (map l_points (computeLeaderboard ps rs))
           = mset (map l_points (computeLeaderboard ps' rs')) \<and>
         mset (computeLeaderboard ps rs) = mset (computeLeaderboard ps' rs')"
proof -
  have "mset (computeLeaderboard ps rs) = image_mset (entry_of (pointsByUser rs)) (mset ps)"
    by (simp add: computeLeaderboard_def)
  also have "\<dots> = image_mset (entry_of (pointsByUser rs')) (mset ps')"
  proof -
    have "entry_of (pointsByUser rs) = entry_of (pointsByUser rs')"
      by (rule ext) (rule mset_entries [OF assms(2)])
    then show ?thesis
      by (simp only: assms(1))
  qed
  also have "\<dots> = mset (computeLeaderboard ps' rs')"
    by (simp add: computeLeaderboard_def)
  finally have e: "mset (computeLeaderboard ps rs) = mset (computeLeaderboard ps' rs')" .
  then have "image_mset l_points (mset (computeLeaderboard ps rs))
           = image_mset l_points (mset (computeLeaderboard ps' rs'))"
    by simp
  with e show ?thesis
    by simp
qed

theorem C9_leaderboard_order_independent_witness:
  "mset (profiles example_db) = mset (rev (profiles example_db)) \<and>
   mset (resources example_db) = mset (rev (resources example_db)) \<and>
   mset (map l_points (computeLeaderboard (profiles example_db) (resources example_db)))
     = mset (map l_points (computeLeaderboard (rev (profiles example_db))
                             (rev (resources example_db)))) \<and>
   map l_points (computeLeaderboard (rev (profiles example_db)) (rev (resources example_db)))
     = [15, 0, 0] \<and>
   map l_id (computeLeaderboard (profiles example_db) (resources example_db))
     = [asha, bilal, chitra] \<and>
   map l_id (computeLeaderboard (rev (profiles example_db)) (rev (resources example_db)))
     = [asha, chitra, bilal]"
proof -
  have h: "mset (profiles example_db) = mset (rev (profiles example_db))"
    "mset (resources example_db) = mset (rev (resources example_db))"
    by simp_all
  note t = C9_leaderboard_order_independent [OF h]
  have c: "map l_points (computeLeaderboard (rev (profiles example_db)) (rev (resources example_db)))
     = [15, 0, 0]"
    "map l_id (computeLeaderboard (profiles example_db) (resources example_db))
     = [asha, bilal, chitra]"
    "map l_id (computeLeaderboard (rev (profiles example_db)) (rev (resources example_db)))
     = [asha, chitra, bilal]"
    by (simp_all add: computeLeaderboard_def pointsByUser_def add_points_def entry_of_def
        get_or_zero_def example_defs Let_def)
  show ?thesis
    using h t c by blast
qed

section \<open>Frame of the resource table\<close>

lemma apply_resource_update_frame:
  "r_uploader_id (apply_resource_update b r) = r_uploader_id r"
  "r_college (apply_resource_update b r) = r_college r"
  "r_average_rating (apply_resource_update b r) = r_average_rating r"
  "r_total_ratings (apply_resource_update b r) = r_total_ratings r"
  by (simp_all add: apply_resource_update_def)

lemma updateResource_resources:
  "resources (snd (updateResource fails isUrl keeps now user rid body d)) = resources d \<or>
   resources (snd (updateResource fails isUrl keeps now user rid body d)) =
     map (\<lambda>r. if r_id r = rid then apply_resource_update (resourceUpdateSchema_parse keeps body) r
               else r)
         (resources d)"
  by (simp add: updateResource_def Let_def split: option.splits)

lemma updateProfile_resources:
  "resources (snd (updateProfile fails isUrl user body d)) = resources d"
  by (simp add: updateProfile_def Let_def split: option.splits)

lemma fulfillRequest_resources:
  "resources (snd (fulfillRequest fails user resourceId qid d)) = resources d"
  by (simp add: fulfillRequest_def split: option.splits)

lemma deleteResource_resources:
  "resources (snd (deleteResource fails now user rid d)) = resources d \<or>
   resources (snd (deleteResource fails now user rid d)) = filter (\<lambda>r. r_id r \<noteq> rid) (resources d)"
  by (simp add: deleteResource_def delete_resource_rows_def split: option.splits)

lemma createResource_success:
  assumes "createResource fails isUrl now newId user nbody d = (Inr (row, pts), d')"
  shows "\<exists>uid profile. user = Some uid \<and>
           single (filter (\<lambda>p. p_id p = uid) (profiles d)) = Some profile \<and>
           r_uploader_id row = uid \<and> r_college row = p_college profile \<and>
           r_average_rating row = 0 \<and> r_total_ratings row = 0 \<and> r_created_at row = now \<and>
           resources d' = resources d @ [row]"
  using assms
  by (auto simp: createResource_def Let_def split: option.splits if_splits)

text \<open>
  Claim C8.  What the handlers other than the rating aggregator leave alone.
  \<open>updateResource\<close> keeps, for every resource row, the id, the uploader, the college, the
  creation time, the average rating and the rating count; \<open>updateProfile\<close> and
  \<open>fulfillRequest\<close> do not touch the resources at all; \<open>deleteResource\<close> only removes
  rows.  \<open>createResource\<close> copies the college of the uploader's profile into the new row,
  with average rating and rating count 0, and appends the row to the table.  So the college
  of a resource is the one its uploader had at creation, whatever the profile says later.
\<close>

theorem C8_frame:
  "map (\<lambda>r. (r_id r, r_uploader_id r, r_college r, r_created_at r, r_average_rating r,
              r_total_ratings r))
       (resources (snd (updateResource fails isUrl keeps now user rid body d)))
   = map (\<lambda>r. (r_id r, r_uploader_id r, r_college r, r_created_at r, r_average_rating r,
                r_total_ratings r))
       (resources d) \<and>
   resources (snd (updateProfile fails isUrl user pbody d)) = resources d \<and>
   resources (snd (fulfillRequest fails user resourceId qid d)) = resources d \<and>
   set (resources (snd (deleteResource fails now user rid d))) \<subseteq> set (resources d) \<and>
   (createResource fails isUrl now newId user nbody d = (Inr (row, pts), d') \<longrightarrow>
      (\<exists>uid profile. user = Some uid \<and>
           single (filter (\<lambda>p. p_id p = uid) (profiles d)) = Some profile \<and>
           r_uploader_id row = uid \<and> r_college row = p_college profile \<and>
           r_average_rating row = 0 \<and> r_total_ratings row = 0 \<and> r_created_at row = now \<and>
           resources d' = resources d @ [row]))"
proof -
  have a: "map (\<lambda>r. (r_id r, r_uploader_id r, r_college r, r_created_at r, r_average_rating r,
              r_total_ratings r))
       (resources (snd (updateResource fails isUrl keeps now user rid body d)))
   = map (\<lambda>r. (r_id r, r_uploader_id r, r_college r, r_created_at r, r_average_rating r,
                r_total_ratings r))
       (resources d)"
    using updateResource_resources [of fails isUrl keeps now user rid body d]
    by (auto simp: apply_resource_update_frame created_at_kept comp_def)
  have b: "set (resources (snd (deleteResource fails now user rid d))) \<subseteq> set (resources d)"
    using deleteResource_resources [of fails now user rid d] by auto
  show ?thesis
    using a b createResource_success [of fails isUrl now newId user nbody d row pts d']
    by (simp add: updateProfile_resources fulfillRequest_resources)
qed

theorem C8_frame_witness:
  "createResource no_faults (\<lambda>u. True) 7000 fresh_id (Some chitra) example_input example_db
     = (Inr (lab_row, 5), example_db\<lparr>resources := resources example_db @ [lab_row]\<rparr>) \<and>
   single (filter (\<lambda>p. p_id p = chitra) (profiles example_db))
     = Some (example_profile chitra ''Chitra'' ''Y'') \<and>
   r_college lab_row = p_college (example_profile chitra ''Chitra'' ''Y'') \<and>
   map p_college
     (profiles (snd (updateProfile no_faults (\<lambda>u. True) (Some chitra) college_change
                       (example_db\<lparr>resources := resources example_db @ [lab_row]\<rparr>))))
     = [''X'', ''X'', ''Z College''] \<and>
   resources (snd (updateProfile no_faults (\<lambda>u. True) (Some chitra) college_change
                     (example_db\<lparr>resources := resources example_db @ [lab_row]\<rparr>)))
     = resources example_db @ [lab_row] \<and>
   fst (updateResource no_faults (\<lambda>u. True) False 8000 (Some chitra) fresh_id privacy_change
          (example_db\<lparr>resources := resources example_db @ [lab_row]\<rparr>))
     = Inr (lab_row\<lparr>r_title := ''Lab notes'', r_privacy := Public\<rparr>) \<and>
   map (\<lambda>r. (r_id r, r_uploader_id r, r_college r, r_created_at r, r_average_rating r,
              r_total_ratings r))
       (resources (snd (updateResource no_faults (\<lambda>u. True) False 8000 (Some chitra) fresh_id
                          privacy_change
                          (example_db\<lparr>resources := resources example_db @ [lab_row]\<rparr>))))
     = [(notes_id, asha, ''X'', 1000, 4, 1), (draft_id, asha, ''X'', 1000, 0, 0),
        (fresh_id, chitra, ''Y'', 7000, 0, 0)] \<and>
   (\<exists>uid profile. Some chitra = Some uid \<and>
           single (filter (\<lambda>p. p_id p = uid) (profiles example_db)) = Some profile \<and>
           r_uploader_id lab_row = uid \<and> r_college lab_row = p_college profile \<and>
           r_average_rating lab_row = 0 \<and> r_total_ratings lab_row = 0 \<and>
           r_created_at lab_row = 7000 \<and>
           resources (example_db\<lparr>resources := resources example_db @ [lab_row]\<rparr>)
             = resources example_db @ [lab_row])"
proof -
  let ?d1 = "example_db\<lparr>resources := resources example_db @ [lab_row]\<rparr>"
  have c: "createResource no_faults (\<lambda>u. True) 7000 fresh_id (Some chitra) example_input example_db
     = (Inr (lab_row, 5), ?d1)"
    by (simp add: createResource_def resourceInputSchema_ok_def min1_def example_input_def
        lab_row_def example_defs Let_def)
  have s: "single (filter (\<lambda>p. p_id p = chitra) (profiles example_db))
     = Some (example_profile chitra ''Chitra'' ''Y'')"
    by (simp add: example_defs)
  have k: "r_college lab_row = p_college (example_profile chitra ''Chitra'' ''Y'')"
    by (simp add: lab_row_def example_profile_def)
  have p: "map p_college (profiles (snd (updateProfile no_faults (\<lambda>u. True) (Some chitra)
              college_change ?d1))) = [''X'', ''X'', ''Z College'']"
    by (simp add: updateProfile_def updateProfileSchema_ok_def min1_def min2_def
        profile_update_empty_def apply_profile_update_def college_change_def example_defs Let_def)
  have f: "find_resource no_faults fresh_id ?d1 = Some lab_row"
    by (simp add: find_resource_def lab_row_def example_defs)
  have v: "resourceUpdateSchema_ok (\<lambda>u. True) privacy_change" "chitra \<noteq> []"
    "r_uploader_id lab_row = chitra" "isWithin24Hours 8000 (r_created_at lab_row)"
    "\<not> no_faults ResourceUpdate"
    "apply_resource_update (resourceUpdateSchema_parse False privacy_change) lab_row
       = lab_row\<lparr>r_title := ''Lab notes'', r_privacy := Public\<rparr>"
    "\<not> resource_update_empty (resourceUpdateSchema_parse False privacy_change)"
    by (simp_all add: resourceUpdateSchema_ok_def min1_def privacy_change_def
        resourceUpdateSchema_parse_def resource_update_empty_def
        no_resource_update_def lab_row_def chitra_def isWithin24Hours_def LOCK_WINDOW_MS_def
        no_faults_def apply_resource_update_def)
  have u: "fst (updateResource no_faults (\<lambda>u. True) False 8000 (Some chitra) fresh_id privacy_change ?d1)
     = Inr (lab_row\<lparr>r_title := ''Lab notes'', r_privacy := Public\<rparr>)"
    by (simp add: updateResource_found [OF v(2) v(1) f] v)
  have m: "map (\<lambda>r. (r_id r, r_uploader_id r, r_college r, r_created_at r, r_average_rating r,
              r_total_ratings r)) (resources ?d1)
     = [(notes_id, asha, ''X'', 1000, 4, 1), (draft_id, asha, ''X'', 1000, 0, 0),
        (fresh_id, chitra, ''Y'', 7000, 0, 0)]"
    by (simp add: lab_row_def example_db_def example_resource_def)
  note t = C8_frame [where fails = no_faults and isUrl = "\<lambda>u. True" and keeps = False and now = 8000
      and user = "Some chitra" and rid = fresh_id and body = privacy_change and d = ?d1
      and pbody = college_change]
  from t have r1: "resources (snd (updateProfile no_faults (\<lambda>u. True) (Some chitra) college_change
                     ?d1)) = resources example_db @ [lab_row]"
    by simp
  from t m have r2: "map (\<lambda>r. (r_id r, r_uploader_id r, r_college r, r_created_at r, r_average_rating r,
              r_total_ratings r))
       (resources (snd (updateResource no_faults (\<lambda>u. True) False 8000 (Some chitra) fresh_id
                          privacy_change ?d1)))
     = [(notes_id, asha, ''X'', 1000, 4, 1), (draft_id, asha, ''X'', 1000, 0, 0),
        (fresh_id, chitra, ''Y'', 7000, 0, 0)]"
    by simp
  note t0 = C8_frame [where fails = no_faults and isUrl = "\<lambda>u. True" and now = 7000
      and newId = fresh_id and user = "Some chitra" and nbody = example_input and d = example_db
      and row = lab_row and pts = 5 and d' = ?d1]
  from t0 c have r0: "\<exists>uid profile. Some chitra = Some uid \<and>
           single (filter (\<lambda>p. p_id p = uid) (profiles example_db)) = Some profile \<and>
           r_uploader_id lab_row = uid \<and> r_college lab_row = p_college profile \<and>
           r_average_rating lab_row = 0 \<and> r_total_ratings lab_row = 0 \<and>
           r_created_at lab_row = 7000 \<and> resources ?d1 = resources example_db @ [lab_row]"
    by blast
  show ?thesis
    using c s k p r1 u r2 r0 by blast
qed

section \<open>Reviews: uniqueness\<close>

lemma reviews_refresh [simp]: "reviews (refreshResourceRating fails rid d) = reviews d"
  by (simp add: refreshResourceRating_def Let_def)

lemma pair_apply_review_update [simp]:
  "v_resource_id (apply_review_update b v) = v_resource_id v"
  "v_user_id (apply_review_update b v) = v_user_id v"
  by (simp_all add: apply_review_update_def Let_def split: option.splits)

lemma createReview_reviews:
  "reviews (snd (createReview fails now newId user body d)) = reviews d \<or>
   (\<exists>row. reviews (snd (createReview fails now newId user body d)) = reviews d @ [row] \<and>
          reviews_insert_ok row d \<and> user = Some (v_user_id row) \<and>
          v_resource_id row = i_resourceId body \<and> v_rating row = i_rating body)"
  by (simp add: createReview_def Let_def split: option.splits)

lemma updateReview_reviews:
  "reviews (snd (updateReview fails now user rid body d)) = reviews d \<or>
   reviewUpdateSchema_ok body \<and>
   reviews (snd (updateReview fails now user rid body d)) =
     map (\<lambda>v. if v_id v = rid then apply_review_update body v else v) (reviews d)"
  by (simp add: updateReview_def Let_def split: option.splits)

lemma deleteReview_reviews:
  "reviews (snd (deleteReview fails now user rid d)) = reviews d \<or>
   reviews (snd (deleteReview fails now user rid d)) = filter (\<lambda>v. v_id v \<noteq> rid) (reviews d)"
  by (simp add: deleteReview_def Let_def split: option.splits)

lemma unique_reviews_handle:
  assumes "unique_reviews d"
  shows "unique_reviews (handle d q)"
proof (cases q)
  case (CreateReview fails now newId user body)
  from createReview_reviews [of fails now newId user body d] assms show ?thesis
    by (fastforce simp: CreateReview unique_reviews_def reviews_insert_ok_def list_ex_iff)
next
  case (UpdateReview fails now user rid body)
  have "(\<lambda>v. (v_resource_id v, v_user_id v)) \<circ>
          (\<lambda>v. if v_id v = rid then apply_review_update body v else v)
        = (\<lambda>v. (v_resource_id v, v_user_id v))"
    by (auto simp: fun_eq_iff)
  with updateReview_reviews [of fails now user rid body d] assms show ?thesis
    by (auto simp: UpdateReview unique_reviews_def)
next
  case (DeleteReview fails now user rid)
  from deleteReview_reviews [of fails now user rid d] assms show ?thesis
    by (auto simp: DeleteReview unique_reviews_def distinct_map_filter)
qed

lemma unique_reviews_run: "unique_reviews d \<Longrightarrow> unique_reviews (run reqs d)"
  unfolding run_def
  by (induction reqs arbitrary: d) (simp_all add: unique_reviews_handle)

lemma filter_distinct_key:
  assumes "distinct (map f xs)" "x \<in> set xs"
  shows "filter (\<lambda>y. f y = f x) xs = [x]"
  using assms
proof (induction xs)
  case Nil
  then show ?case by simp
next
  case (Cons a xs)
  show ?case
  proof (cases "a = x")
    case True
    with Cons.prems have "filter (\<lambda>y. f y = f x) xs = []"
      by (auto simp: filter_empty_conv image_iff)
    with True show ?thesis by simp
  next
    case False
    with Cons show ?thesis by auto
  qed
qed

lemma createReview_duplicate:
  assumes "unique_reviews d" "v \<in> set (reviews d)" "uid \<noteq> []" "reviewSchema_ok body"
    "\<not> fails ReviewLookup" "v_resource_id v = i_resourceId body" "v_user_id v = uid"
  shows "createReview fails now newId (Some uid) body d = (Inl Conflict409, d)"
proof -
  have "filter (\<lambda>w. (v_resource_id w, v_user_id w) = (v_resource_id v, v_user_id v)) (reviews d) = [v]"
    using assms(1,2) unfolding unique_reviews_def by (rule filter_distinct_key)
  then have "single (filter (\<lambda>w. v_resource_id w = i_resourceId body \<and> v_user_id w = uid) (reviews d))
               = Some v"
    using assms(6,7) by simp
  then show ?thesis
    using assms by (simp add: createReview_def Let_def)
qed

lemma createReview_no_second:
  assumes "v \<in> set (reviews d)" "v_resource_id v = i_resourceId body" "v_user_id v = uid"
  shows "reviews (snd (createReview fails now newId (Some uid) body d)) = reviews d"
  using createReview_reviews [of fails now newId "Some uid" body d] assms
  by (fastforce simp: reviews_insert_ok_def list_ex_iff)

text \<open>
  Claim C3.  At most one review for each pair of resource and reviewer, at every observation
  point: the property is kept by every sequence of requests to the three review handlers,
  whatever their store calls do.  A \<open>createReview\<close> for a pair that has a review never
  adds a review; and when the user is signed in, the body is valid and the lookup of the
  existing review succeeds, it is answered with the conflict error and changes nothing.
\<close>

theorem C3_one_review_per_pair:
  assumes "unique_reviews d"
  shows "unique_reviews (run reqs d) \<and>
         (v \<in> set (reviews d) \<and> v_resource_id v = i_resourceId body \<and> v_user_id v = uid \<longrightarrow>
            reviews (snd (createReview fails now newId (Some uid) body d)) = reviews d \<and>
            (uid \<noteq> [] \<and> reviewSchema_ok body \<and> \<not> fails ReviewLookup \<longrightarrow>
               createReview fails now newId (Some uid) body d = (Inl Conflict409, d)))"
  using assms createReview_duplicate [of d v uid body fails now newId]
    createReview_no_second [of v d body uid fails now newId]
  by (simp add: unique_reviews_run)

theorem C3_one_review_per_pair_witness:
  "unique_reviews example_db \<and> example_review \<in> set (reviews example_db) \<and>
   v_resource_id example_review = i_resourceId bilal_again \<and>
   v_user_id example_review = bilal \<and> bilal \<noteq> [] \<and> reviewSchema_ok bilal_again \<and>
   \<not> no_faults ReviewLookup \<and>
   createReview no_faults 6500 second_id (Some bilal) bilal_again example_db
     = (Inl Conflict409, example_db) \<and>
   reviews (snd (createReview rating_update_fails 6500 second_id (Some bilal) bilal_again example_db))
     = reviews example_db \<and>
   unique_reviews (run [CreateReview no_faults 6000 fresh_id (Some chitra) chitra_input,
                        CreateReview no_faults 6500 second_id (Some bilal) bilal_again]
                     example_db) \<and>
   reviews (run [CreateReview no_faults 6000 fresh_id (Some chitra) chitra_input,
                 CreateReview no_faults 6500 second_id (Some bilal) bilal_again] example_db)
     = [example_review, chitra_review]"
proof -
  have h: "unique_reviews example_db" "example_review \<in> set (reviews example_db)"
    "v_resource_id example_review = i_resourceId bilal_again"
    "v_user_id example_review = bilal" "bilal \<noteq> []" "reviewSchema_ok bilal_again"
    "\<not> no_faults ReviewLookup"
    by (simp_all add: unique_reviews_def reviewSchema_ok_def example_defs example_defs2)
  note t = C3_one_review_per_pair [OF h(1), where v = example_review and body = bilal_again
      and uid = bilal and now = 6500 and newId = second_id
      and reqs = "[CreateReview no_faults 6000 fresh_id (Some chitra) chitra_input,
                   CreateReview no_faults 6500 second_id (Some bilal) bilal_again]"]
  from t [where fails = no_faults] h have r1:
    "createReview no_faults 6500 second_id (Some bilal) bilal_again example_db
     = (Inl Conflict409, example_db)"
    by blast
  from t [where fails = rating_update_fails] h have r2:
    "reviews (snd (createReview rating_update_fails 6500 second_id (Some bilal) bilal_again
                     example_db)) = reviews example_db"
    by blast
  from t [where fails = no_faults] have r3:
    "unique_reviews (run [CreateReview no_faults 6000 fresh_id (Some chitra) chitra_input,
                        CreateReview no_faults 6500 second_id (Some bilal) bilal_again]
                     example_db)"
    by blast
  have c1: "reviews (snd (createReview no_faults 6000 fresh_id (Some chitra) chitra_input example_db))
    = [example_review, chitra_review]"
    by (simp add: createReview_def reviewSchema_ok_def reviews_insert_ok_def Let_def
        example_defs example_defs2)
  have c2: "reviews (snd (createReview no_faults 6500 second_id (Some bilal) bilal_again d))
    = [example_review, chitra_review]" if "reviews d = [example_review, chitra_review]" for d
    using that
    by (simp add: createReview_def reviewSchema_ok_def reviews_insert_ok_def Let_def
        example_defs example_defs2)
  have r4: "reviews (run [CreateReview no_faults 6000 fresh_id (Some chitra) chitra_input,
                 CreateReview no_faults 6500 second_id (Some bilal) bilal_again] example_db)
     = [example_review, chitra_review]"
    by (simp add: run_def c2 [OF c1])
  show ?thesis
    using h r1 r2 r3 r4 by blast
qed

section \<open>Reviews: a recomputation that fails\<close>

lemma average_4_3: "averageRating [4, 3] = 7 / 2"
  by code_simp

text \<open>
  Claim C5.  What the review handlers answer when the recomputation fails.  In the example
  store the public resource has one review with rating 4, average 4 and count 1.  When the
  update of the aggregate fails, \<open>createReview\<close>, \<open>updateReview\<close> and \<open>deleteReview\<close>
  each answer with success and the review is written, while average and count stay as they
  were (4 and 1, where the reviews now give 3.5 and 2, or 2 and 1, or none).  When the select
  of the ratings fails, \<open>createReview\<close> answers with success and writes average 0 and
  count 0.
\<close>

theorem C5_success_with_stale_aggregate:
  "createReview rating_update_fails 6000 fresh_id (Some chitra) chitra_input example_db
     = (Inr chitra_review, example_db\<lparr>reviews := [example_review, chitra_review]\<rparr>) \<and>
   ratings_of notes_id (example_db\<lparr>reviews := [example_review, chitra_review]\<rparr>) = [4, 3] \<and>
   averageRating [4, 3] = 7 / 2 \<and>
   map (\<lambda>r. (r_id r, r_average_rating r, r_total_ratings r)) (resources example_db)
     = [(notes_id, 4, 1), (draft_id, 0, 0)] \<and>
   updateReview rating_update_fails 6000 (Some bilal) review_id rating_two example_db
     = (Inr (example_review\<lparr>v_rating := 2\<rparr>),
        example_db\<lparr>reviews := [example_review\<lparr>v_rating := 2\<rparr>]\<rparr>) \<and>
   deleteReview rating_update_fails 6000 (Some bilal) review_id example_db
     = (Inr (), example_db\<lparr>reviews := []\<rparr>) \<and>
   createReview rating_select_fails 6000 fresh_id (Some chitra) chitra_input example_db
     = (Inr chitra_review,
        example_db\<lparr>reviews := [example_review, chitra_review],
                   resources := [notes_row\<lparr>r_average_rating := 0, r_total_ratings := 0\<rparr>,
                                 draft_row]\<rparr>)"
proof -
  have a: "createReview rating_update_fails 6000 fresh_id (Some chitra) chitra_input example_db
     = (Inr chitra_review, example_db\<lparr>reviews := [example_review, chitra_review]\<rparr>)"
    by (simp add: createReview_def reviewSchema_ok_def reviews_insert_ok_def
        refreshResourceRating_def Let_def example_defs example_defs2)
  have b: "ratings_of notes_id (example_db\<lparr>reviews := [example_review, chitra_review]\<rparr>) = [4, 3]"
    by (simp add: ratings_of_def example_defs example_defs2)
  have c: "map (\<lambda>r. (r_id r, r_average_rating r, r_total_ratings r)) (resources example_db)
     = [(notes_id, 4, 1), (draft_id, 0, 0)]"
    by (simp add: example_db_def example_resource_def)
  have u: "bilal \<noteq> []" "chitra \<noteq> []"
    by (simp_all add: bilal_def chitra_def)
  have f: "find_review rating_update_fails review_id example_db = Some example_review"
    by (simp add: find_review_def example_defs example_defs2)
  have o: "reviewUpdateSchema_ok rating_two" "v_user_id example_review = bilal"
    "isWithin24Hours 6000 (v_created_at example_review)"
    "\<not> rating_update_fails ReviewUpdate" "\<not> rating_update_fails ReviewDelete"
    "rating_update_fails RatingUpdate"
    "apply_review_update rating_two example_review = example_review\<lparr>v_rating := 2\<rparr>"
    "\<not> review_update_empty rating_two"
    by (simp_all add: reviewUpdateSchema_ok_def review_update_empty_def rating_two_def example_review_def
        isWithin24Hours_def LOCK_WINDOW_MS_def rating_update_fails_def apply_review_update_def)
  have m: "reviews example_db = [example_review]" "v_id example_review = review_id"
    by (simp_all add: example_db_def example_review_def)
  have d: "updateReview rating_update_fails 6000 (Some bilal) review_id rating_two example_db
     = (Inr (example_review\<lparr>v_rating := 2\<rparr>),
        example_db\<lparr>reviews := [example_review\<lparr>v_rating := 2\<rparr>]\<rparr>)"
    by (simp add: updateReview_found [OF u(1) o(1) f] o m refreshResourceRating_def Let_def)
  have e: "deleteReview rating_update_fails 6000 (Some bilal) review_id example_db
     = (Inr (), example_db\<lparr>reviews := []\<rparr>)"
    by (simp add: deleteReview_found [OF u(1) f] o m refreshResourceRating_def Let_def)
  have g: "createReview rating_select_fails 6000 fresh_id (Some chitra) chitra_input example_db
     = (Inr chitra_review,
        example_db\<lparr>reviews := [example_review, chitra_review],
                   resources := [notes_row\<lparr>r_average_rating := 0, r_total_ratings := 0\<rparr>,
                                 draft_row]\<rparr>)"
    by (simp add: createReview_def reviewSchema_ok_def reviews_insert_ok_def
        refreshResourceRating_def Let_def example_defs example_defs2)
  show ?thesis
    using a b c d e g average_4_3 by blast
qed

section \<open>The stored average and the half-up mean\<close>

lemma round_half_even_error:
  assumes "0 < b"
  shows "\<bar>(of_int (round_half_even a b) :: rat) - of_int a / of_int b\<bar> \<le> 1 / 2"
proof -
  define q where "q = a div b"
  define r where "r = a mod b"
  have a: "a = q * b + r" and r: "0 \<le> r" "r < b"
    using assms by (simp_all add: q_def r_def)
  have bpos: "(0::rat) < of_int b"
    using assms by simp
  have ab: "(of_int a :: rat) / of_int b = of_int q + of_int r / of_int b"
    using bpos by (simp add: a add_divide_distrib)
  consider "2 * r < b" | "b < 2 * r" | "2 * r = b" by linarith
  then show ?thesis
  proof cases
    case 1
    then have "(of_int (2 * r) :: rat) < of_int b" by (simp only: of_int_less_iff)
    then have "2 * (of_int r :: rat) < of_int b" by simp
    with bpos have "(of_int r :: rat) / of_int b < 1 / 2"
      by (simp add: pos_divide_less_eq)
    moreover have "(0::rat) \<le> of_int r / of_int b"
      using r bpos by simp
    moreover have "round_half_even a b = q"
      using 1 by (simp add: round_half_even_def Let_def flip: q_def r_def)
    ultimately show ?thesis
      by (simp add: ab)
  next
    case 2
    then have "(of_int b :: rat) < of_int (2 * r)" by (simp only: of_int_less_iff)
    then have "(of_int b :: rat) < 2 * of_int r" by simp
    with bpos have "(of_int r :: rat) / of_int b > 1 / 2"
      by (simp add: pos_less_divide_eq)
    moreover have "(of_int r :: rat) / of_int b < 1"
      using r bpos by simp
    moreover have "round_half_even a b = q + 1"
      using 2 by (simp add: round_half_even_def Let_def flip: q_def r_def)
    ultimately show ?thesis
      by (simp add: ab)
  next
    case 3
    then have "(of_int b :: rat) = of_int (2 * r)" by (simp only: of_int_eq_iff)
    then have "(of_int b :: rat) = 2 * of_int r" by simp
    with bpos have h: "(of_int r :: rat) / of_int b = 1 / 2"
      by (simp add: field_simps)
    have "round_half_even a b = q \<or> round_half_even a b = q + 1"
      by (simp add: round_half_even_def Let_def flip: q_def r_def)
    then show ?thesis
      by (auto simp: ab h)
  qed
qed

declare bit_length.simps [simp del]

lemma bit_length_nonpos: "k \<le> 0 \<Longrightarrow> bit_length k = 0"
  by (subst bit_length.simps) simp

lemma bit_length_pos: "0 < k \<Longrightarrow> bit_length k = Suc (bit_length (k div 2))"
  by (subst bit_length.simps) simp

lemma bit_length_upper: "k < 2 ^ bit_length k"
proof (induction k rule: bit_length.induct)
  case (1 k)
  show ?case
  proof (cases "k \<le> 0")
    case True
    then show ?thesis by (simp add: bit_length_nonpos)
  next
    case False
    with 1 have "k div 2 < 2 ^ bit_length (k div 2)" by simp
    then have "k < 2 * 2 ^ bit_length (k div 2)" by linarith
    with False show ?thesis by (simp add: bit_length_pos)
  qed
qed

lemma bit_length_lower: "0 < k \<Longrightarrow> 2 ^ (bit_length k - 1) \<le> k"
proof (induction k rule: bit_length.induct)
  case (1 k)
  from "1.prems" have bk: "bit_length k = Suc (bit_length (k div 2))"
    by (rule bit_length_pos)
  show ?case
  proof (cases "k div 2 = 0")
    case True
    then have "bit_length (k div 2) = 0"
      by (simp only: bit_length_nonpos)
    with bk "1.prems" show ?thesis by simp
  next
    case False
    with "1.prems" have p: "0 < k div 2" by linarith
    with "1.prems" "1.IH" have ih: "2 ^ (bit_length (k div 2) - 1) \<le> k div 2" by simp
    from p have "bit_length (k div 2) = Suc (bit_length (k div 2 div 2))"
      by (rule bit_length_pos)
    then obtain m where m: "bit_length (k div 2) = Suc m" by blast
    with ih have "2 * 2 ^ m \<le> 2 * (k div 2)" by simp
    also have "\<dots> \<le> k" by linarith
    finally show ?thesis by (simp add: bk m)
  qed
qed

text \<open>The exponent is the one of the quotient.\<close>

lemma binary_exponent_bounds:
  assumes "0 < s" "0 < n"
  shows "(2::rat) powi binary_exponent s n \<le> of_int s / of_int n \<and>
         (of_int s / of_int n :: rat) < 2 powi (binary_exponent s n + 1)"
proof -
  define bs where "bs = bit_length s"
  define bn where "bn = bit_length n"
  define d where "d = int bs - int bn"
  define q :: rat where "q = of_int s / of_int n"
  have np: "(0::rat) < of_int n" and sp: "(0::rat) < of_int s"
    using assms by simp_all
  have bsp: "0 < bs" "0 < bn"
    using assms by (simp_all add: bs_def bn_def bit_length_pos)
  have "(of_int s :: rat) < of_int (2 ^ bs)" "(of_int (2 ^ (bs - 1)) :: rat) \<le> of_int s"
    "(of_int n :: rat) < of_int (2 ^ bn)" "(of_int (2 ^ (bn - 1)) :: rat) \<le> of_int n"
    unfolding bs_def bn_def of_int_less_iff of_int_le_iff
    using assms bit_length_upper [of s] bit_length_upper [of n]
      bit_length_lower [of s] bit_length_lower [of n]
    by simp_all
  then have b: "(of_int s :: rat) < 2 ^ bs" "(2::rat) ^ (bs - 1) \<le> of_int s"
    "(of_int n :: rat) < 2 ^ bn" "(2::rat) ^ (bn - 1) \<le> of_int n"
    by simp_all
  have p1: "(2::rat) powi (int bs) = 2 ^ bs" "(2::rat) powi (int bn) = 2 ^ bn"
    by simp_all
  have p2: "(2::rat) powi (int bs - 1) = 2 ^ (bs - 1)" "(2::rat) powi (int bn - 1) = 2 ^ (bn - 1)"
    using bsp by (simp_all add: power_int_def nat_diff_distrib')
  have up: "q < 2 powi (d + 1)"
  proof -
    have "of_int s * (2::rat) ^ (bn - 1) < 2 ^ bs * of_int n"
      using b sp np by (intro mult_less_le_imp_less) simp_all
    then have "q < 2 ^ bs / 2 ^ (bn - 1)"
      using np by (simp add: q_def field_simps)
    also have "\<dots> = 2 powi (int bs) / 2 powi (int bn - 1)"
      by (simp only: p1 p2)
    also have "\<dots> = 2 powi (int bs - (int bn - 1))"
      by (rule power_int_diff [symmetric]) simp
    also have "int bs - (int bn - 1) = d + 1"
      by (simp add: d_def)
    finally show ?thesis .
  qed
  have lo: "2 powi (d - 1) < q"
  proof -
    have "(2::rat) ^ (bs - 1) * of_int n < of_int s * 2 ^ bn"
      using b sp np by (intro mult_le_less_imp_less) simp_all
    then have "2 ^ (bs - 1) / 2 ^ bn < q"
      using np by (simp add: q_def field_simps)
    moreover have "(2::rat) ^ (bs - 1) / 2 ^ bn = 2 powi (int bs - 1) / 2 powi (int bn)"
      by (simp only: p1 p2)
    moreover have "(2::rat) powi (int bs - 1) / 2 powi (int bn) = 2 powi (int bs - 1 - int bn)"
      by (rule power_int_diff [symmetric]) simp
    moreover have "int bs - 1 - int bn = d - 1"
      by (simp add: d_def)
    ultimately show ?thesis by simp
  qed
  have c: "(if 0 \<le> d then n * 2 ^ nat d \<le> s else n \<le> s * 2 ^ nat (- d)) = (2 powi d \<le> q)"
  proof (cases "0 \<le> d")
    case True
    define P :: rat where "P = 2 ^ nat d"
    have Pp: "0 < P" by (simp add: P_def)
    from True have pw: "(2::rat) powi d = P" by (simp add: power_int_def P_def)
    have "(n * 2 ^ nat d \<le> s) = ((of_int (n * 2 ^ nat d) :: rat) \<le> of_int s)"
      by (simp only: of_int_le_iff)
    also have "\<dots> = (of_int n * P \<le> of_int s)"
      by (simp add: P_def)
    also have "\<dots> = (P \<le> q)"
      using np by (simp add: q_def field_simps)
    finally show ?thesis
      using True by (simp add: pw)
  next
    case False
    define P :: rat where "P = 2 ^ nat (- d)"
    have Pp: "0 < P" by (simp add: P_def)
    from False have pw: "(2::rat) powi d = 1 / P"
      by (simp add: power_int_def P_def field_simps)
    have "(n \<le> s * 2 ^ nat (- d)) = ((of_int n :: rat) \<le> of_int (s * 2 ^ nat (- d)))"
      by (simp only: of_int_le_iff)
    also have "\<dots> = (of_int n \<le> of_int s * P)"
      by (simp add: P_def)
    also have "\<dots> = (1 / P \<le> q)"
      using np Pp by (simp add: q_def field_simps)
    finally show ?thesis
      using False by (simp add: pw)
  qed
  have e: "binary_exponent s n = (if 2 powi d \<le> q then d else d - 1)"
    unfolding binary_exponent_def Let_def bs_def [symmetric] bn_def [symmetric] d_def [symmetric]
    by (simp only: c)
  show ?thesis
    unfolding q_def [symmetric] e using up lo by auto
qed

lemma binary_exponent_le_2:
  assumes "0 < n" "n \<le> s" "s < 8 * n"
  shows "binary_exponent s n \<le> 2"
proof -
  have "0 < s" using assms by linarith
  then have "2 ^ (bit_length s - 1) \<le> s" by (rule bit_length_lower)
  also have "s < 8 * n" by fact
  also have "8 * n < 8 * 2 ^ bit_length n"
    using bit_length_upper [of n] by simp
  also have "\<dots> = 2 ^ (bit_length n + 3)"
    by (simp add: power_add)
  finally have "bit_length s - 1 < bit_length n + 3"
    by simp
  then have d: "int (bit_length s) - int (bit_length n) \<le> 3" by linarith
  show ?thesis
  proof (cases "int (bit_length s) - int (bit_length n) = 3")
    case True
    with assms show ?thesis
      by (simp add: binary_exponent_def Let_def)
  next
    case False
    with d have "int (bit_length s) - int (bit_length n) \<le> 2" by linarith
    then show ?thesis
      by (simp add: binary_exponent_def Let_def)
  qed
qed

lemma scaled_error:
  fixes R q P :: rat
  assumes "0 < P" "\<bar>R - q * P\<bar> \<le> 1 / 2"
  shows "\<bar>R / P - q\<bar> \<le> 1 / (2 * P)"
proof -
  have "R / P - q = (R - q * P) / P"
    using assms(1) by (simp add: diff_divide_distrib)
  then have "\<bar>R / P - q\<bar> = \<bar>R - q * P\<bar> / P"
    using assms(1) by simp
  also have "\<dots> \<le> (1 / 2) / P"
    using assms by (intro divide_right_mono) simp_all
  finally show ?thesis by simp
qed

lemma double_div_error:
  assumes "0 < n" "n \<le> s" "s < 8 * n"
  shows "\<bar>double_div s n - of_int s / of_int n\<bar> \<le> 1 / 2 ^ 51"
proof -
  define e where "e = binary_exponent s n"
  have e: "e \<le> 2" unfolding e_def using assms by (rule binary_exponent_le_2)
  define k where "k = nat (52 - e)"
  have k: "50 \<le> k" using e by (simp add: k_def)
  define R where "R = round_half_even (s * 2 ^ k) n"
  define P :: rat where "P = 2 ^ k"
  define q :: rat where "q = of_int s / of_int n"
  have P: "0 < P" by (simp add: P_def)
  have dd: "double_div s n = of_int R / P"
    using e by (simp add: double_div_def Let_def R_def k_def P_def flip: e_def)
  have "\<bar>(of_int R :: rat) - of_int (s * 2 ^ k) / of_int n\<bar> \<le> 1 / 2"
    unfolding R_def using assms(1) by (rule round_half_even_error)
  moreover have "(of_int (s * 2 ^ k) :: rat) / of_int n = q * P"
    by (simp add: q_def P_def)
  ultimately have "\<bar>of_int R - q * P\<bar> \<le> 1 / 2"
    by simp
  with P have "\<bar>of_int R / P - q\<bar> \<le> 1 / (2 * P)"
    by (rule scaled_error)
  moreover have "1 / (2 * P) \<le> 1 / 2 ^ 51"
  proof -
    have "(2::rat) ^ 51 \<le> 2 ^ Suc k"
      using k by (intro power_increasing) simp_all
    then have "(2::rat) ^ 51 \<le> 2 * P"
      by (simp add: P_def)
    then show ?thesis
      by (intro divide_left_mono) simp_all
  qed
  ultimately show ?thesis
    unfolding dd q_def by linarith
qed

lemma sum_list_bounds:
  "\<forall>r\<in>set rs. 1 \<le> r \<and> r \<le> (5::int) \<Longrightarrow>
   int (length rs) \<le> sum_list rs \<and> sum_list rs \<le> 5 * int (length rs)"
  by (induction rs) auto

lemma floor_near:
  fixes y z :: rat and H :: int and g :: rat
  assumes "\<bar>y - z\<bar> < g" "of_int H + g \<le> z" "z + g \<le> of_int H + 1"
  shows "\<lfloor>y\<rfloor> = H"
proof -
  have "of_int H \<le> y" "y < of_int H + 1"
    using assms by linarith+
  then show ?thesis
    by (simp add: floor_unique)
qed

lemma floor_near_tie:
  fixes y :: rat and H :: int
  assumes "\<bar>y - of_int H\<bar> < 1"
  shows "\<lfloor>y\<rfloor> = H \<or> \<lfloor>y\<rfloor> = H - 1"
proof (cases "of_int H \<le> y")
  case True
  with assms have "y < of_int H + 1" by linarith
  with True have "\<lfloor>y\<rfloor> = H" by (simp add: floor_unique)
  then show ?thesis ..
next
  case False
  with assms have "of_int (H - 1) \<le> y" "y < of_int (H - 1) + 1" by simp_all
  then have "\<lfloor>y\<rfloor> = H - 1" by (rule floor_unique)
  then show ?thesis ..
qed

lemma tenths_of_mean:
  fixes s n :: int
  assumes "0 < n"
  shows "(of_int s / of_int n :: rat) * 10 + 1 / 2 = of_int (20 * s + n) / of_int (2 * n)"
proof -
  have "(of_int n :: rat) \<noteq> 0" using assms by simp
  then show ?thesis
    by (simp add: field_simps)
qed

lemma div_mod_rat:
  fixes N D :: int
  assumes "0 < D"
  shows "(of_int N :: rat) / of_int D = of_int (N div D) + of_int (N mod D) / of_int D"
proof -
  have "N = N div D * D + N mod D" by simp
  then have "(of_int N :: rat) = of_int (N div D * D + N mod D)" by (rule arg_cong)
  also have "\<dots> = of_int (N div D) * of_int D + of_int (N mod D)"
    by (simp only: of_int_add of_int_mult)
  finally show ?thesis
    using assms by (simp add: add_divide_distrib)
qed

lemma toFixed1_double_div:
  fixes s n :: int
  assumes n: "0 < n" "n \<le> 2 ^ 46" and s: "n \<le> s" "s \<le> 5 * n"
  shows "toFixed1 (js_div s n) = (20 * s + n) div (2 * n) \<or>
         (20 * s + n) mod (2 * n) = 0 \<and> toFixed1 (js_div s n) = (20 * s + n) div (2 * n) - 1"
proof -
  define q :: rat where "q = of_int s / of_int n"
  define x where "x = double_div s n"
  define N where "N = 20 * s + n"
  define D where "D = 2 * n"
  define H where "H = N div D"
  define r where "r = N mod D"
  have D: "0 < D" "D \<le> 2 ^ 47" using n by (simp_all add: D_def)
  have "(of_int D :: rat) \<le> of_int (2 ^ 47)"
    using D(2) by (simp only: of_int_le_iff)
  then have Dr: "(0::rat) < of_int D" "(of_int D :: rat) \<le> 2 ^ 47"
    using D(1) by simp_all
  have jx: "js_div s n = x"
    using n s by (simp add: js_div_def x_def)
  define eps :: rat where "eps = 1 / 2 ^ 51"
  define g :: rat where "g = 1 / 2 ^ 47"
  have eps: "0 < eps" "10 * eps < g" "g < 1"
    by (simp_all add: eps_def g_def)
  have err: "\<bar>x - q\<bar> \<le> eps"
    unfolding x_def q_def eps_def using n s by (intro double_div_error) simp_all
  have q1: "1 \<le> q"
    using n s by (simp add: q_def)
  have xpos: "\<not> x < 0"
    using err q1 eps by linarith
  have T: "toFixed1 (js_div s n) = \<lfloor>x * 10 + 1 / 2\<rfloor>"
    using xpos by (simp add: toFixed1_def jx)
  have y: "q * 10 + 1 / 2 = of_int N / of_int D"
    unfolding q_def N_def D_def using n(1) by (rule tenths_of_mean)
  have dec: "q * 10 + 1 / 2 = of_int H + of_int r / of_int D"
    unfolding y H_def r_def using D(1) by (rule div_mod_rat)
  have gap: "\<bar>(x * 10 + 1 / 2) - (q * 10 + 1 / 2)\<bar> < g"
    using err eps by linarith
  have invD: "g \<le> 1 / of_int D"
    unfolding g_def using Dr by (intro divide_left_mono) simp_all
  have r: "0 \<le> r" "r < D"
    using D(1) by (simp_all add: r_def)
  show ?thesis
  proof (cases "r = 0")
    case True
    then have "q * 10 + 1 / 2 = of_int H"
      by (simp add: dec)
    with gap eps have "\<bar>(x * 10 + 1 / 2) - of_int H\<bar> < 1"
      by linarith
    then have "\<lfloor>x * 10 + 1 / 2\<rfloor> = H \<or> \<lfloor>x * 10 + 1 / 2\<rfloor> = H - 1"
      by (rule floor_near_tie)
    with True show ?thesis
      unfolding T by (auto simp: H_def r_def N_def D_def)
  next
    case False
    with r have r1: "1 \<le> r" "r \<le> D - 1" by simp_all
    then have "(of_int 1 :: rat) \<le> of_int r" "(of_int r :: rat) \<le> of_int (D - 1)"
      by (simp_all only: of_int_le_iff)
    then have rr: "(1::rat) \<le> of_int r" "(of_int r :: rat) \<le> of_int D - 1"
      by simp_all
    have lo: "(1::rat) / of_int D \<le> of_int r / of_int D"
      using rr(1) Dr(1) by (intro divide_right_mono) simp_all
    have "(of_int r :: rat) / of_int D \<le> (of_int D - 1) / of_int D"
      using rr(2) Dr(1) by (intro divide_right_mono) simp_all
    also have "\<dots> = 1 - 1 / of_int D"
      using Dr(1) by (simp add: diff_divide_distrib)
    finally have hi: "(of_int r :: rat) / of_int D \<le> 1 - 1 / of_int D" .
    have "\<bar>(x * 10 + 1 / 2) - (q * 10 + 1 / 2)\<bar> < 1 / of_int D"
      using gap invD by linarith
    moreover have "of_int H + 1 / of_int D \<le> q * 10 + 1 / 2"
      using lo by (simp add: dec)
    moreover have "q * 10 + 1 / 2 + 1 / of_int D \<le> of_int H + 1"
      using hi by (simp add: dec)
    ultimately have "\<lfloor>x * 10 + 1 / 2\<rfloor> = H"
      by (rule floor_near)
    then show ?thesis
      unfolding T by (simp add: H_def N_def D_def)
  qed
qed

lemma mean_half_up_div:
  assumes "rs \<noteq> []"
  shows "mean_half_up rs
           = of_int ((20 * sum_list rs + int (length rs)) div (2 * int (length rs))) / 10"
proof -
  have n: "0 < int (length rs)" using assms by simp
  have "\<lfloor>(of_int (sum_list rs) / of_int (int (length rs)) :: rat) * 10 + 1 / 2\<rfloor>
      = \<lfloor>(of_int (20 * sum_list rs + int (length rs)) :: rat) / of_int (2 * int (length rs))\<rfloor>"
    by (simp only: tenths_of_mean [OF n])
  also have "\<dots> = (20 * sum_list rs + int (length rs)) div (2 * int (length rs))"
    by (rule floor_divide_of_int_eq)
  finally show ?thesis
    by (simp only: mean_half_up_def)
qed

lemma averageRating_half_up:
  assumes "rs \<noteq> []" "\<forall>r\<in>set rs. 1 \<le> r \<and> r \<le> 5" "length rs \<le> 2 ^ 46"
  shows "averageRating rs = mean_half_up rs \<or>
         halfway rs \<and> averageRating rs = mean_half_up rs - 1 / 10"
proof -
  define n where "n = int (length rs)"
  define s where "s = sum_list rs"
  have n: "0 < n" using assms(1) by (simp add: n_def)
  have "int (length rs) \<le> int (2 ^ 46)"
    using assms(3) by (simp only: of_nat_le_iff)
  then have n2: "n \<le> 2 ^ 46" by (simp add: n_def)
  have s: "n \<le> s" "s \<le> 5 * n"
    using sum_list_bounds [OF assms(2)] by (simp_all add: n_def s_def)
  have a: "averageRating rs = of_int (toFixed1 (js_div s n)) / 10"
    using assms(1) by (simp add: averageRating_def n_def s_def)
  have m: "mean_half_up rs = of_int ((20 * s + n) div (2 * n)) / 10"
    unfolding n_def s_def using assms(1) by (rule mean_half_up_div)
  have h: "halfway rs = ((20 * s + n) mod (2 * n) = 0)"
    by (simp add: halfway_def n_def s_def)
  from toFixed1_double_div [OF n n2 s] show ?thesis
    unfolding a m h by (auto simp: diff_divide_distrib)
qed

lemma averageRating_Nil: "averageRating [] = 0"
  by (simp add: averageRating_def)

section \<open>Reviews: the aggregate after a sequence of requests\<close>

lemma ratings_of_refresh [simp]:
  "ratings_of Y (refreshResourceRating fails X d) = ratings_of Y d"
  by (simp add: ratings_of_def)

lemma refresh_restores:
  assumes "aggregate_ok d" "resources d' = resources d"
    "\<And>Y. Y \<noteq> X \<Longrightarrow> ratings_of Y d' = ratings_of Y d"
    "\<not> fails RatingSelect" "\<not> fails RatingUpdate"
  shows "aggregate_ok (refreshResourceRating fails X d')"
proof -
  have r: "resources (refreshResourceRating fails X d') =
      map (\<lambda>r. if r_id r = X
                then r\<lparr>r_average_rating := averageRating (ratings_of X d'),
                       r_total_ratings := length (ratings_of X d')\<rparr>
                else r) (resources d)"
    using assms(2,4,5) by (simp add: refreshResourceRating_def Let_def)
  show ?thesis
    unfolding aggregate_ok_def r using assms(1,3)
    by (auto simp: aggregate_ok_def list_all_iff)
qed

lemma single_SomeD: "single xs = Some x \<Longrightarrow> xs = [x]"
  by (cases xs rule: single.cases) auto

lemma filter_other_map:
  assumes "\<And>w. w \<in> set xs \<Longrightarrow> P w \<Longrightarrow> \<not> Q w" "\<And>w. Q (g w) = Q w"
  shows "filter Q (map (\<lambda>w. if P w then g w else w) xs) = filter Q xs"
  using assms by (induction xs) auto

lemma filter_other_filter:
  assumes "\<And>w. w \<in> set xs \<Longrightarrow> \<not> P w \<Longrightarrow> \<not> Q w"
  shows "filter Q (filter P xs) = filter Q xs"
  using assms by (induction xs) auto

lemma found_review_rows:
  assumes "find_review fails rid d = Some v" "w \<in> set (reviews d)" "v_id w = rid"
  shows "w = v"
proof -
  from assms(1) have "filter (\<lambda>v. v_id v = rid) (reviews d) = [v]"
    by (auto simp: find_review_def dest: single_SomeD split: if_splits)
  moreover from assms(2,3) have "w \<in> set (filter (\<lambda>v. v_id v = rid) (reviews d))"
    by simp
  ultimately show ?thesis by simp
qed

lemma aggregate_ok_createReview:
  assumes "aggregate_ok d" "\<not> fails RatingSelect" "\<not> fails RatingUpdate"
  shows "aggregate_ok (snd (createReview fails now newId user body d))"
proof -
  have "aggregate_ok (refreshResourceRating fails (i_resourceId body) (d\<lparr>reviews := reviews d @ [row]\<rparr>))"
    if "v_resource_id row = i_resourceId body" for row
    using assms that
    by (intro refresh_restores [of d]) (simp_all add: ratings_of_def)
  with assms(1) show ?thesis
    by (simp add: createReview_def Let_def split: option.splits)
qed

lemma aggregate_ok_updateReview:
  assumes "aggregate_ok d" "\<not> fails RatingSelect" "\<not> fails RatingUpdate"
  shows "aggregate_ok (snd (updateReview fails now user rid body d))"
proof (cases "\<exists>uid v. user = Some uid \<and> uid \<noteq> [] \<and> reviewUpdateSchema_ok body \<and>
                find_review fails rid d = Some v")
  case True
  then obtain uid v where h: "user = Some uid" "uid \<noteq> []" "reviewUpdateSchema_ok body"
    "find_review fails rid d = Some v" by blast
  have "ratings_of Y (d\<lparr>reviews := map (\<lambda>v. if v_id v = rid then apply_review_update body v else v)
                                     (reviews d)\<rparr>) = ratings_of Y d"
    if "Y \<noteq> v_resource_id v" for Y
  proof -
    have "filter (\<lambda>w. v_resource_id w = Y)
            (map (\<lambda>w. if v_id w = rid then apply_review_update body w else w) (reviews d))
          = filter (\<lambda>w. v_resource_id w = Y) (reviews d)"
      using that found_review_rows [OF h(4)]
      by (intro filter_other_map [where P = "\<lambda>w. v_id w = rid"
            and Q = "\<lambda>w. v_resource_id w = Y" and g = "apply_review_update body"]) auto
    then show ?thesis
      by (simp add: ratings_of_def)
  qed
  then have "aggregate_ok (refreshResourceRating fails (v_resource_id v)
       (d\<lparr>reviews := map (\<lambda>v. if v_id v = rid then apply_review_update body v else v)
                                     (reviews d)\<rparr>))"
    using assms by (intro refresh_restores [of d]) simp_all
  with assms(1) show ?thesis
    by (simp add: h updateReview_found [OF h(2,3,4)])
next
  case False
  then have "snd (updateReview fails now user rid body d) = d"
    by (auto simp: updateReview_def split: option.splits)
  with assms(1) show ?thesis by simp
qed

lemma aggregate_ok_deleteReview:
  assumes "aggregate_ok d" "\<not> fails RatingSelect" "\<not> fails RatingUpdate"
  shows "aggregate_ok (snd (deleteReview fails now user rid d))"
proof (cases "\<exists>uid v. user = Some uid \<and> uid \<noteq> [] \<and> find_review fails rid d = Some v")
  case True
  then obtain uid v where h: "user = Some uid" "uid \<noteq> []"
    "find_review fails rid d = Some v" by blast
  have "ratings_of Y (d\<lparr>reviews := filter (\<lambda>v. v_id v \<noteq> rid) (reviews d)\<rparr>) = ratings_of Y d"
    if "Y \<noteq> v_resource_id v" for Y
  proof -
    have "filter (\<lambda>w. v_resource_id w = Y) (filter (\<lambda>w. v_id w \<noteq> rid) (reviews d))
          = filter (\<lambda>w. v_resource_id w = Y) (reviews d)"
      using that found_review_rows [OF h(3)]
      by (intro filter_other_filter [where P = "\<lambda>w. v_id w \<noteq> rid"
            and Q = "\<lambda>w. v_resource_id w = Y"]) auto
    then show ?thesis
      by (simp add: ratings_of_def)
  qed
  then have "aggregate_ok (refreshResourceRating fails (v_resource_id v)
       (d\<lparr>reviews := filter (\<lambda>v. v_id v \<noteq> rid) (reviews d)\<rparr>))"
    using assms by (intro refresh_restores [of d]) simp_all
  with assms(1) show ?thesis
    by (simp add: h deleteReview_found [OF h(2,3)])
next
  case False
  then have "snd (deleteReview fails now user rid d) = d"
    by (auto simp: deleteReview_def split: option.splits)
  with assms(1) show ?thesis by simp
qed

lemma aggregate_ok_handle:
  assumes "aggregate_ok d" "refresh_succeeds q"
  shows "aggregate_ok (handle d q)"
  using assms
  by (cases q)
     (simp_all add: refresh_succeeds_def aggregate_ok_createReview aggregate_ok_updateReview
        aggregate_ok_deleteReview)

lemma aggregate_ok_run:
  "aggregate_ok d \<Longrightarrow> list_all refresh_succeeds reqs \<Longrightarrow> aggregate_ok (run reqs d)"
  unfolding run_def
  by (induction reqs arbitrary: d) (simp_all add: aggregate_ok_handle)

lemma rating_apply_review_update:
  assumes "reviewUpdateSchema_ok b" "1 \<le> v_rating v \<and> v_rating v \<le> 5"
  shows "1 \<le> v_rating (apply_review_update b v) \<and> v_rating (apply_review_update b v) \<le> 5"
  using assms
  by (auto simp: reviewUpdateSchema_ok_def apply_review_update_def Let_def split: option.splits)

lemma ratings_checked_handle:
  assumes "ratings_checked d"
  shows "ratings_checked (handle d q)"
proof (cases q)
  case (CreateReview fails now newId user body)
  from createReview_reviews [of fails now newId user body d] assms show ?thesis
    by (auto simp: CreateReview ratings_checked_def reviews_insert_ok_def)
next
  case (UpdateReview fails now user rid body)
  from updateReview_reviews [of fails now user rid body d] assms show ?thesis
    by (auto simp: UpdateReview ratings_checked_def list_all_iff rating_apply_review_update)
next
  case (DeleteReview fails now user rid)
  from deleteReview_reviews [of fails now user rid d] assms show ?thesis
    by (auto simp: DeleteReview ratings_checked_def list_all_iff)
qed

lemma ratings_checked_run: "ratings_checked d \<Longrightarrow> ratings_checked (run reqs d)"
  unfolding run_def
  by (induction reqs arbitrary: d) (simp_all add: ratings_checked_handle)

lemma ratings_checked_ratings_of:
  "ratings_checked d \<Longrightarrow> \<forall>x\<in>set (ratings_of Y d). 1 \<le> x \<and> x \<le> 5"
  by (auto simp: ratings_checked_def ratings_of_def list_all_iff)

text \<open>
  Claim C2 (amended).  Start from a store whose resource rows carry the count and the average
  of their reviews and whose ratings satisfy the check constraint, and handle any sequence
  of review create, update and delete requests in which the two store calls of the
  recomputation succeed.  Then every resource row carries the number of its current reviews
  as count and, as average, the value that \<open>toFixed(1)\<close> gives for the binary64 quotient of
  the sum of their ratings by their number; both are 0 when there is no review.  For at most
  \<open>2^46\<close> reviews that average is the exact mean rounded half-up to one decimal, except that,
  when the exact mean lies midway between two tenths, it is either that value or one tenth
  less.
\<close>

theorem C2_rating_aggregate:
  assumes "aggregate_ok d" and "ratings_checked d" and "list_all refresh_succeeds reqs"
    and "r \<in> set (resources (run reqs d))"
  shows "r_total_ratings r = length (ratings_of (r_id r) (run reqs d)) \<and>
         r_average_rating r = averageRating (ratings_of (r_id r) (run reqs d)) \<and>
         (ratings_of (r_id r) (run reqs d) = [] \<longrightarrow>
            r_average_rating r = 0 \<and> r_total_ratings r = 0) \<and>
         (ratings_of (r_id r) (run reqs d) \<noteq> [] \<and>
          length (ratings_of (r_id r) (run reqs d)) \<le> 2 ^ 46 \<longrightarrow>
            r_average_rating r = mean_half_up (ratings_of (r_id r) (run reqs d)) \<or>
            halfway (ratings_of (r_id r) (run reqs d)) \<and>
            r_average_rating r = mean_half_up (ratings_of (r_id r) (run reqs d)) - 1 / 10)"
proof -
  define rs where "rs = ratings_of (r_id r) (run reqs d)"
  have "aggregate_ok (run reqs d)"
    using assms(1,3) by (rule aggregate_ok_run)
  with assms(4) have a: "r_total_ratings r = length rs" "r_average_rating r = averageRating rs"
    by (simp_all add: aggregate_ok_def list_all_iff rs_def)
  have "ratings_checked (run reqs d)"
    using assms(2) by (rule ratings_checked_run)
  then have c: "\<forall>x\<in>set rs. 1 \<le> x \<and> x \<le> 5"
    unfolding rs_def by (rule ratings_checked_ratings_of)
  have h: "averageRating rs = mean_half_up rs \<or>
           halfway rs \<and> averageRating rs = mean_half_up rs - 1 / 10"
    if "rs \<noteq> []" "length rs \<le> 2 ^ 46"
    using that(1) c that(2) by (rule averageRating_half_up)
  show ?thesis
    unfolding rs_def [symmetric] using a h by (auto simp: averageRating_Nil)
qed

lemma average_twenty: "averageRating twenty_ratings = 11 / 10"
  unfolding twenty_ratings_def by code_simp

lemma half_up_twenty: "mean_half_up twenty_ratings = 6 / 5"
  by (simp add: mean_half_up_def twenty_ratings_def)

lemma halfway_twenty: "halfway twenty_ratings"
  by (simp add: halfway_def twenty_ratings_def)

lemma crowd_ratings_after:
  "ratings_of notes_id (snd (createReview no_faults 9000 fresh_id (Some chitra) twentieth_input crowd_db))
     = twenty_ratings"
  by (simp add: createReview_def reviewSchema_ok_def reviews_insert_ok_def ratings_of_def Let_def
        crowd_defs example_defs)

lemma average_nineteen: "averageRating crowd_ratings = 11 / 10"
  unfolding crowd_ratings_def by code_simp

text \<open>
  The claim as stated fails with twenty reviews whose ratings sum to 23: the exact mean is
  1.15, half-up rounding gives 1.2, and the store holds 1.1 after the twentieth
  \<open>createReview\<close>, because the binary64 quotient 23 / 20 lies just below 1.15.
\<close>

theorem C2_counterexample:
  "aggregate_ok crowd_db \<and> ratings_checked crowd_db \<and>
   \<not> isl (fst (createReview no_faults 9000 fresh_id (Some chitra) twentieth_input crowd_db)) \<and>
   ratings_of notes_id
     (snd (createReview no_faults 9000 fresh_id (Some chitra) twentieth_input crowd_db))
     = twenty_ratings \<and>
   map (\<lambda>r. (r_id r, r_average_rating r, r_total_ratings r))
     (resources (snd (createReview no_faults 9000 fresh_id (Some chitra) twentieth_input crowd_db)))
     = [(notes_id, 11 / 10, 20)] \<and>
   sum_list twenty_ratings = 23 \<and> length twenty_ratings = 20 \<and>
   halfway twenty_ratings \<and> mean_half_up twenty_ratings = 12 / 10"
proof -
  have r0: "ratings_of notes_id crowd_db = crowd_ratings"
    by (simp add: ratings_of_def crowd_defs example_defs)
  have r1: "resources crowd_db = [(example_resource notes_id asha ''X'' Public)
                     \<lparr>r_average_rating := 11 / 10, r_total_ratings := 19\<rparr>]"
    by (simp add: crowd_db_def)
  have r2: "length crowd_ratings = 19"
    by (simp add: crowd_ratings_def)
  have a: "aggregate_ok crowd_db"
    by (simp add: aggregate_ok_def r1 example_resource_def r0 r2 average_nineteen)
  have b: "ratings_checked crowd_db"
    by (simp add: ratings_checked_def crowd_defs)
  have c: "\<not> isl (fst (createReview no_faults 9000 fresh_id (Some chitra) twentieth_input crowd_db))"
    by (simp add: createReview_def reviewSchema_ok_def reviews_insert_ok_def Let_def
        crowd_defs example_defs)
  have l: "length twenty_ratings = 20" "sum_list twenty_ratings = 23"
    by (simp_all add: twenty_ratings_def)
  have d: "map (\<lambda>r. (r_id r, r_average_rating r, r_total_ratings r))
     (resources (snd (createReview no_faults 9000 fresh_id (Some chitra) twentieth_input crowd_db)))
     = [(notes_id, averageRating twenty_ratings, length twenty_ratings)]"
    by (simp add: createReview_def reviewSchema_ok_def reviews_insert_ok_def ratings_of_def Let_def
        refreshResourceRating_def crowd_defs example_defs)
  show ?thesis
    using a b c crowd_ratings_after d l half_up_twenty halfway_twenty
    by (simp add: average_twenty)
qed

lemma average_2_3: "averageRating [2, 3] = 5 / 2"
  by code_simp

lemma average_4: "averageRating [4] = 4"
  by code_simp

lemma r_ids_refresh [simp]:
  "map r_id (resources (refreshResourceRating fails X d)) = map r_id (resources d)"
  by (auto simp: refreshResourceRating_def Let_def)

theorem C2_rating_aggregate_witness:
  "aggregate_ok example_db \<and> ratings_checked example_db \<and>
   list_all refresh_succeeds
     [UpdateReview no_faults 6000 (Some bilal) review_id rating_two,
      CreateReview no_faults 6000 fresh_id (Some chitra) chitra_input] \<and>
   ratings_of notes_id
     (run [UpdateReview no_faults 6000 (Some bilal) review_id rating_two,
           CreateReview no_faults 6000 fresh_id (Some chitra) chitra_input] example_db) = [2, 3] \<and>
   ratings_of draft_id
     (run [UpdateReview no_faults 6000 (Some bilal) review_id rating_two,
           CreateReview no_faults 6000 fresh_id (Some chitra) chitra_input] example_db) = [] \<and>
   map (\<lambda>r. (r_id r, r_average_rating r, r_total_ratings r))
     (resources
        (run [UpdateReview no_faults 6000 (Some bilal) review_id rating_two,
              CreateReview no_faults 6000 fresh_id (Some chitra) chitra_input] example_db))
     = [(notes_id, 5 / 2, 2), (draft_id, 0, 0)] \<and>
   mean_half_up [2, 3] = 5 / 2 \<and> \<not> halfway [2, 3]"
proof -
  let ?reqs = "[UpdateReview no_faults 6000 (Some bilal) review_id rating_two,
                CreateReview no_faults 6000 fresh_id (Some chitra) chitra_input]"
  let ?final = "run ?reqs example_db"
  have r0: "ratings_of notes_id example_db = [4]" "ratings_of draft_id example_db = []"
    by (simp_all add: ratings_of_def example_defs)
  have res0: "resources example_db = [notes_row, draft_row]"
    by (simp add: example_db_def)
  have a: "aggregate_ok example_db"
    by (simp add: aggregate_ok_def res0 example_resource_def r0 average_4 averageRating_Nil)
  have b: "ratings_checked example_db"
    by (simp add: ratings_checked_def example_defs)
  have c: "list_all refresh_succeeds ?reqs"
    by (simp add: refresh_succeeds_def no_faults_def)
  have u: "bilal \<noteq> []"
    by (simp add: bilal_def)
  have f: "find_review no_faults review_id example_db = Some example_review"
    by (simp add: find_review_def example_defs)
  have o: "reviewUpdateSchema_ok rating_two" "v_user_id example_review = bilal"
    "isWithin24Hours 6000 (v_created_at example_review)" "\<not> no_faults ReviewUpdate"
    "apply_review_update rating_two example_review = example_review\<lparr>v_rating := 2\<rparr>"
    "\<not> review_update_empty rating_two"
    by (simp_all add: reviewUpdateSchema_ok_def review_update_empty_def rating_two_def example_review_def
        isWithin24Hours_def LOCK_WINDOW_MS_def no_faults_def apply_review_update_def)
  have m: "reviews example_db = [example_review]" "v_id example_review = review_id"
    by (simp_all add: example_db_def example_review_def)
  have s1: "reviews (handle example_db (UpdateReview no_faults 6000 (Some bilal) review_id rating_two))
      = [example_review\<lparr>v_rating := 2\<rparr>]"
    "map r_id (resources (handle example_db
        (UpdateReview no_faults 6000 (Some bilal) review_id rating_two))) = [notes_id, draft_id]"
    "profiles (handle example_db (UpdateReview no_faults 6000 (Some bilal) review_id rating_two))
      = profiles example_db"
    by (simp_all add: updateReview_found [OF u o(1) f] o m res0 example_resource_def)
       (simp add: refreshResourceRating_def Let_def)
  have s2: "reviews (handle d (CreateReview no_faults 6000 fresh_id (Some chitra) chitra_input))
      = [example_review\<lparr>v_rating := 2\<rparr>, chitra_review] \<and>
     map r_id (resources (handle d (CreateReview no_faults 6000 fresh_id (Some chitra) chitra_input)))
      = [notes_id, draft_id]"
    if "reviews d = [example_review\<lparr>v_rating := 2\<rparr>]"
      "map r_id (resources d) = [notes_id, draft_id]" "profiles d = profiles example_db" for d
    using that
    by (simp add: createReview_def reviewSchema_ok_def reviews_insert_ok_def Let_def
        example_defs example_defs2)
  have fin: "reviews ?final = [example_review\<lparr>v_rating := 2\<rparr>, chitra_review]"
    "map r_id (resources ?final) = [notes_id, draft_id]"
    using s2 [OF s1] by (simp_all add: run_def)
  have r1: "ratings_of notes_id ?final = [2, 3]" "ratings_of draft_id ?final = []"
    unfolding ratings_of_def fin(1)
    by (simp_all add: example_review_def chitra_review_def notes_id_def draft_id_def)
  have t: "(r_id r, r_average_rating r, r_total_ratings r)
      = (r_id r, averageRating (ratings_of (r_id r) ?final), length (ratings_of (r_id r) ?final))"
    if "r \<in> set (resources ?final)" for r
    using C2_rating_aggregate [OF a b c that] by simp
  have "map (\<lambda>r. (r_id r, r_average_rating r, r_total_ratings r)) (resources ?final)
      = map (\<lambda>r. (r_id r, averageRating (ratings_of (r_id r) ?final),
                    length (ratings_of (r_id r) ?final))) (resources ?final)"
    using t by (intro map_cong) simp_all
  also have "\<dots> = map (\<lambda>i. (i, averageRating (ratings_of i ?final), length (ratings_of i ?final)))
                      (map r_id (resources ?final))"
    by (simp add: comp_def)
  also have "\<dots> = [(notes_id, 5 / 2, 2), (draft_id, 0, 0)]"
    unfolding fin(2) by (simp add: r1 average_2_3 averageRating_Nil)
  finally have agg: "map (\<lambda>r. (r_id r, r_average_rating r, r_total_ratings r)) (resources ?final)
      = [(notes_id, 5 / 2, 2), (draft_id, 0, 0)]" .
  have h: "mean_half_up [2, 3] = 5 / 2" "\<not> halfway [2, 3]"
    by (simp_all add: mean_half_up_div halfway_def)
  show ?thesis
    using a b c r1 agg h by blast
qed

end
